theory Spec2Isabelle
  imports Main
begin

section \<open>The remote catalog client (src/lib/server/steam.ts)\<close>

subsection \<open>What a call to the remote can produce\<close>

text \<open>
  Every client function awaits \<open>fetch\<close> and then reads \<open>response.ok\<close>,
  \<open>response.statusText\<close> and the parsed body. \<open>fetch\<close> itself may reject (the remote
  cannot be reached); none of the functions catches that, so it leaves them as a throw.
  An answer is taken to carry a JSON body, so that \<open>response.json()\<close> resolves.
\<close>

datatype 'a fetched =
    Rejected
  | Response bool string 'a

text \<open>
  The throws of the source: a rejected \<open>fetch\<close>, the explicit
  \<open>throw new Error(`Failed to fetch ...: ${response.statusText}`)\<close>, and the
  \<open>TypeError\<close> JavaScript raises when a property is read from \<open>undefined\<close>.
\<close>

datatype error =
    FetchRejected
  | HttpError string
  | TypeError

subsection \<open>getSteamApps\<close>

text \<open>
  The body of a GetAppList answer is \<open>data.response\<close>, which may be absent. Inside it
  \<open>apps\<close> (entries \<open>{appid, name}\<close>), \<open>have_more_results\<close> and \<open>last_appid\<close> may each
  be absent: the source reads them with \<open>?.\<close>, \<open>??\<close> and a truthiness test.
\<close>

record app_list_response =
  apps :: "(int \<times> string) list option"
  have_more_results :: "bool option"
  last_appid :: "int option"

type_synonym app_list_page = "app_list_response option fetched"

text \<open>The value returned: \<open>{apps: {appId, name}[], time}\<close>.\<close>

record app_list =
  appList_apps :: "(int \<times> string) list"
  appList_time :: int

text \<open>
  The \<open>while (moreResults)\<close> loop. Its state is \<open>lastAppId\<close> (which becomes
  \<open>undefined\<close> when a page sets the flag but carries no \<open>last_appid\<close>, so that the next
  \<open>lastAppId.toString()\<close> throws) and the accumulated \<open>apps\<close>. The remote is the list
  of answers it gives to the successive requests; each request is recorded as the pair
  \<open>(if_modified_since, last_appid)\<close> it carries. The loop has no bound of its own: when
  the listed answers are used up and the loop still wants another page, the result is
  \<open>None\<close>.
\<close>

fun getSteamApps_loop ::
  "app_list_page list \<Rightarrow> int \<Rightarrow> int \<Rightarrow> int option \<Rightarrow> (int \<times> string) list \<Rightarrow> (int \<times> int) list
    \<Rightarrow> ((error + app_list) \<times> (int \<times> int) list) option" where
  "getSteamApps_loop pages time lastTime None acc reqs = Some (Inl TypeError, reqs)"
| "getSteamApps_loop [] time lastTime (Some lastAppId) acc reqs = None"
| "getSteamApps_loop (Rejected # pages) time lastTime (Some lastAppId) acc reqs =
     Some (Inl FetchRejected, reqs @ [(lastTime, lastAppId)])"
| "getSteamApps_loop (Response ok statusText data # pages) time lastTime (Some lastAppId) acc reqs =
     (if \<not> ok then
        Some (Inl (HttpError (''Failed to fetch Steam apps: '' @ statusText)),
              reqs @ [(lastTime, lastAppId)])
      else
        (case data of
           None \<Rightarrow> Some (Inl TypeError, reqs @ [(lastTime, lastAppId)])
         | Some response \<Rightarrow>
             if apps response = Some [] then
               Some (Inr \<lparr>appList_apps = [], appList_time = lastTime\<rparr>,
                     reqs @ [(lastTime, lastAppId)])
             else if have_more_results response = Some True then
               getSteamApps_loop pages time lastTime (last_appid response)
                 (acc @ (case apps response of None \<Rightarrow> [] | Some as \<Rightarrow> as))
                 (reqs @ [(lastTime, lastAppId)])
             else
               Some (Inr \<lparr>appList_apps =
                            map (\<lambda>(appid, name). (appid, name))
                              (acc @ (case apps response of None \<Rightarrow> [] | Some as \<Rightarrow> as)),
                          appList_time = time\<rparr>,
                     reqs @ [(lastTime, lastAppId)])))"

text \<open>
  \<open>getSteamApps(lastTime = 0)\<close>: \<open>time\<close> is \<open>Date.now()\<close> read before the first
  request, \<open>lastAppId\<close> starts at 0 and \<open>apps\<close> empty.
\<close>

definition getSteamApps ::
  "int \<Rightarrow> app_list_page list \<Rightarrow> int \<Rightarrow> ((error + app_list) \<times> (int \<times> int) list) option" where
  "getSteamApps time pages lastTime = getSteamApps_loop pages time lastTime (Some 0) [] []"

subsection \<open>getSteamAppDetails\<close>

text \<open>
  A store item of a GetItems answer. \<open>tags\<close> (entries \<open>{tagid, weight}\<close>) and the region
  flag (spelled as the source spells it) may be absent.
\<close>

record store_item =
  appid :: int
  name :: string
  full_description :: string
  tags :: "(int \<times> int) list option"
  unvailable_for_country_restriction :: "bool option"

text \<open>
  The body is \<open>data.response.store_items\<close>; \<open>None\<close> stands for an answer in which
  \<open>response\<close> or \<open>store_items\<close> is missing, where \<open>.filter\<close> throws a \<open>TypeError\<close>.
\<close>

type_synonym items_page = "store_item list option fetched"

text \<open>
  An element of the returned array, which is also what \<open>insertOrUpdateApps\<close> takes:
  \<open>{appId, name, description, tags: {id, weight}[], color?, playerCount?}\<close>.
\<close>

record app =
  appId :: int
  app_name :: string
  description :: string
  app_tags :: "(int \<times> int) list"
  color :: "string option"
  playerCount :: "int option"

text \<open>\<open>for (let i = 0; i < appIds.length; i += 250) chunks.push(appIds.slice(i, i + 250))\<close>\<close>

function chunks_from :: "nat \<Rightarrow> int list \<Rightarrow> int list list" where
  "chunks_from i appIds =
     (if i < length appIds then take 250 (drop i appIds) # chunks_from (i + 250) appIds else [])"
  by pat_completeness auto
termination
  by (relation "measure (\<lambda>(i, appIds). length appIds - i)") auto

declare chunks_from.simps [simp del]

text \<open>
  \<open>for (const chunk of chunks)\<close>: one request per chunk, in order; the first failure
  throws. The second component lists the chunks requested so far.
\<close>

fun fetch_chunks ::
  "(int list \<Rightarrow> items_page) \<Rightarrow> int list list \<Rightarrow> store_item list \<Rightarrow> int list list
    \<Rightarrow> (error + store_item list) \<times> int list list" where
  "fetch_chunks api [] acc reqs = (Inr acc, reqs)"
| "fetch_chunks api (chunk # chunks) acc reqs =
     (case api chunk of
        Rejected \<Rightarrow> (Inl FetchRejected, reqs @ [chunk])
      | Response ok statusText data \<Rightarrow>
          if \<not> ok then
            (Inl (HttpError (''Failed to fetch Steam app details: '' @ statusText)),
             reqs @ [chunk])
          else
            (case data of
               None \<Rightarrow> (Inl TypeError, reqs @ [chunk])
             | Some store_items \<Rightarrow>
                 fetch_chunks api chunks
                   (acc @ filter (\<lambda>item. unvailable_for_country_restriction item \<noteq> Some True)
                            store_items)
                   (reqs @ [chunk])))"

text \<open>The final \<open>apps.map\<close>; the objects it builds have no \<open>color\<close> and no \<open>playerCount\<close>.\<close>

definition item_to_app :: "store_item \<Rightarrow> app" where
  "item_to_app item =
     \<lparr>appId = appid item,
      app_name = name item,
      description = full_description item,
      app_tags = (case tags item of
                    None \<Rightarrow> []
                  | Some ts \<Rightarrow> map (\<lambda>(tagid, weight). (tagid, weight)) ts),
      color = None,
      playerCount = None\<rparr>"

definition getSteamAppDetails ::
  "(int list \<Rightarrow> items_page) \<Rightarrow> int list \<Rightarrow> (error + app list) \<times> int list list" where
  "getSteamAppDetails api appIds =
     (case fetch_chunks api (chunks_from 0 appIds) [] [] of
        (Inl e, reqs) \<Rightarrow> (Inl e, reqs)
      | (Inr items, reqs) \<Rightarrow> (Inr (map item_to_app items), reqs))"

subsection \<open>getTagList\<close>

text \<open>
  The body is \<open>data.response\<close> (a \<open>TypeError\<close> when missing); \<open>tags\<close> (entries
  \<open>{tagid, name}\<close>) and \<open>version_hash\<close> may be absent.
\<close>

record tag_list_response =
  response_tags :: "(int \<times> string) list option"
  version_hash :: "int option"

type_synonym tag_list_page = "tag_list_response option fetched"

record tag_list =
  tagList_tags :: "(int \<times> string) list"
  tagHash :: "int option"

definition getTagList :: "(int \<Rightarrow> tag_list_page) \<Rightarrow> int \<Rightarrow> error + tag_list" where
  "getTagList api lastTagHash =
     (case api lastTagHash of
        Rejected \<Rightarrow> Inl FetchRejected
      | Response ok statusText data \<Rightarrow>
          if \<not> ok then Inl (HttpError (''Failed to fetch Steam tag list: '' @ statusText))
          else
            (case data of
               None \<Rightarrow> Inl TypeError
             | Some response \<Rightarrow>
                 Inr \<lparr>tagList_tags =
                        (case response_tags response of
                           None \<Rightarrow> []
                         | Some ts \<Rightarrow> map (\<lambda>(tagid, name). (tagid, name)) ts),
                      tagHash = version_hash response\<rparr>))"

subsection \<open>getPlayerCount\<close>

text \<open>
  The body is \<open>data.response\<close>; \<open>player_count\<close> inside it may be absent
  (\<open>data.response.player_count ?? 0\<close>).
\<close>

type_synonym player_count_page = "int option option fetched"

definition getPlayerCount :: "(int \<Rightarrow> player_count_page) \<Rightarrow> int \<Rightarrow> error + int" where
  "getPlayerCount api appId' =
     (case api appId' of
        Rejected \<Rightarrow> Inl FetchRejected
      | Response ok statusText data \<Rightarrow>
          if \<not> ok then Inr 0
          else
            (case data of
               None \<Rightarrow> Inl TypeError
             | Some player_count \<Rightarrow>
                 Inr (case player_count of None \<Rightarrow> 0 | Some n \<Rightarrow> n)))"

section \<open>The store writer (src/unnamed/part_000, the module imported as database.js)\<close>

subsection \<open>Tables and statements\<close>

text \<open>
  The three tables \<open>checkDatabase\<close> creates, each keyed by its primary key. \<open>color\<close> and
  \<open>player_count\<close> are nullable columns (\<open>None\<close> is SQL \<open>NULL\<close>); their \<open>DEFAULT\<close>
  clauses give a value only to a column an \<open>INSERT\<close> does not list.
\<close>

record app_row =
  row_name :: string
  row_description :: string
  row_color :: "string option"
  row_player_count :: "int option"

record tables =
  app_table :: "int \<rightharpoonup> app_row"
  tags_table :: "int \<rightharpoonup> string"
  app_tags_table :: "int \<times> int \<rightharpoonup> int"

text \<open>
  What readers of the database see is \<open>committed\<close>; \<open>txn\<close> is the working copy of the
  transaction the client of \<open>insertOrUpdateApps\<close> has open, if any.
\<close>

record store =
  committed :: tables
  txn :: "tables option"

text \<open>
  The statements the source sends, with the rows their array parameters unnest to.
  \<open>TagListQuery\<close> is the \<open>query\<close> of \<open>insertOrUpdateTags\<close>; \<open>AppQuery\<close> and
  \<open>TagsQuery\<close> are the two statements of \<open>insertOrUpdateApps\<close>.
\<close>

datatype statement =
    BEGIN
  | COMMIT
  | ROLLBACK
  | TagListQuery "(int \<times> string) list"
  | AppQuery "(int \<times> string \<times> string \<times> string option \<times> int option) list"
  | TagsQuery "(int \<times> int \<times> int) list"

text \<open>
  \<open>INSERT ... ON CONFLICT (key) DO UPDATE SET col = EXCLUDED.col\<close> for every column:
  each row replaces whatever the table holds under its key. All the columns are listed in
  the \<open>INSERT\<close>, so a \<open>NULL\<close> element is stored as \<open>NULL\<close>. This is the effect of a
  statement the database accepts. The schema's foreign keys (\<open>app_tags\<close> to \<open>app\<close> and to
  \<open>tags\<close>) and \<open>NOT NULL\<close> columns are not checked here: a statement that breaks one
  is among those the database refuses (\<open>queryFails\<close> below).
\<close>

definition upsert_tags :: "(int \<times> string) list \<Rightarrow> tables \<Rightarrow> tables" where
  "upsert_tags rows t =
     fold (\<lambda>(tag_id, tag_name) t. t\<lparr>tags_table := (tags_table t)(tag_id \<mapsto> tag_name)\<rparr>) rows t"

definition upsert_apps ::
  "(int \<times> string \<times> string \<times> string option \<times> int option) list \<Rightarrow> tables \<Rightarrow> tables" where
  "upsert_apps rows t =
     fold (\<lambda>(app_id, nm, descr, col, player_count) t.
             t\<lparr>app_table := (app_table t)(app_id \<mapsto>
                  \<lparr>row_name = nm, row_description = descr, row_color = col,
                   row_player_count = player_count\<rparr>)\<rparr>) rows t"

definition upsert_app_tags :: "(int \<times> int \<times> int) list \<Rightarrow> tables \<Rightarrow> tables" where
  "upsert_app_tags rows t =
     fold (\<lambda>(app_id, tag_id, weight) t.
             t\<lparr>app_tags_table := (app_tags_table t)((app_id, tag_id) \<mapsto> weight)\<rparr>) rows t"

text \<open>
  \<open>pool.query\<close> (used by \<open>insertOrUpdateTags\<close>) runs outside any transaction and commits
  at once. The statements sent through the transaction's \<open>client\<close> work on its copy
  until \<open>COMMIT\<close> publishes it or \<open>ROLLBACK\<close> drops it.
\<close>

definition in_txn :: "(tables \<Rightarrow> tables) \<Rightarrow> store \<Rightarrow> store" where
  "in_txn f s =
     (case txn s of
        None \<Rightarrow> s\<lparr>committed := f (committed s)\<rparr>
      | Some t \<Rightarrow> s\<lparr>txn := Some (f t)\<rparr>)"

fun apply_statement :: "statement \<Rightarrow> store \<Rightarrow> store" where
  "apply_statement BEGIN s = s\<lparr>txn := Some (committed s)\<rparr>"
| "apply_statement COMMIT s =
     (case txn s of None \<Rightarrow> s | Some t \<Rightarrow> \<lparr>committed = t, txn = None\<rparr>)"
| "apply_statement ROLLBACK s = s\<lparr>txn := None\<rparr>"
| "apply_statement (TagListQuery rows) s = s\<lparr>committed := upsert_tags rows (committed s)\<rparr>"
| "apply_statement (AppQuery rows) s = in_txn (upsert_apps rows) s"
| "apply_statement (TagsQuery rows) s = in_txn (upsert_app_tags rows) s"

subsection \<open>The world the code runs in\<close>

text \<open>
  \<open>data.json\<close> holds \<open>{lastTagHash?, lastAppTime?}\<close>; the job is its only writer.
\<close>

record data_json =
  lastTagHash :: "int option"
  lastAppTime :: "int option"

text \<open>What the job does to the outside, in the order it does it.\<close>

datatype event =
    ConsoleLog string
  | ConsoleLogCount string nat string
  | ConsoleError string
  | GetTagList int
  | GetAppList int int
  | GetItems "int list"
  | Query statement
  | WriteFile data_json

text \<open>
  \<open>dataJson\<close> is the file (\<open>None\<close>: missing or not parseable), \<open>db\<close> the database and
  \<open>trace\<close> the events so far.
\<close>

record world =
  dataJson :: "data_json option"
  db :: store
  trace :: "event list"

text \<open>
  What the outside answers while one feed runs: the clock, the three remote endpoints,
  which statements the database refuses, and whether writing \<open>data.json\<close> fails.
\<close>

record env =
  now :: int
  tagListApi :: "int \<Rightarrow> tag_list_page"
  appListApi :: "app_list_page list"
  itemsApi :: "int list \<Rightarrow> items_page"
  queryFails :: "statement \<Rightarrow> bool"
  writeFileFails :: bool

definition console_log :: "string \<Rightarrow> world \<Rightarrow> world" where
  "console_log msg w = w\<lparr>trace := trace w @ [ConsoleLog msg]\<rparr>"

definition console_error :: "string \<Rightarrow> world \<Rightarrow> world" where
  "console_error msg w = w\<lparr>trace := trace w @ [ConsoleError msg]\<rparr>"

subsection \<open>insertOrUpdateTags, insertOrUpdateApps\<close>

text \<open>
  One awaited statement: \<open>True\<close> when it resolves, \<open>False\<close> when it throws (the store
  is then as it was). Every statement inside a \<open>try\<close> block may be refused. The
  \<open>ROLLBACK\<close> of the \<open>catch\<close> block and \<open>pool.connect()\<close> fail only when the connection
  itself is lost, which is outside this model: they are taken to succeed.
\<close>

definition query :: "env \<Rightarrow> statement \<Rightarrow> world \<Rightarrow> bool \<times> world" where
  "query e s w =
     (if s \<noteq> ROLLBACK \<and> queryFails e s then (False, w\<lparr>trace := trace w @ [Query s]\<rparr>)
      else (True, w\<lparr>db := apply_statement s (db w), trace := trace w @ [Query s]\<rparr>))"

definition insertOrUpdateTags :: "env \<Rightarrow> (int \<times> string) list \<Rightarrow> world \<Rightarrow> bool \<times> world" where
  "insertOrUpdateTags e tgs w =
     (case query e (TagListQuery (map (\<lambda>(tag_id, tag_name). (tag_id, tag_name)) tgs)) w of
        (True, w') \<Rightarrow> (True, w')
      | (False, w') \<Rightarrow> (False, console_error ''Error inserting or updating tags:'' w'))"

text \<open>The rows of the two statements of \<open>insertOrUpdateApps\<close>, from its \<open>map\<close> and \<open>flatMap\<close> calls.\<close>

definition app_rows :: "app list \<Rightarrow> (int \<times> string \<times> string \<times> string option \<times> int option) list" where
  "app_rows as = map (\<lambda>a. (appId a, app_name a, description a, color a, playerCount a)) as"

definition app_tag_rows :: "app list \<Rightarrow> (int \<times> int \<times> int) list" where
  "app_tag_rows as = concat (map (\<lambda>a. map (\<lambda>(tag_id, weight). (appId a, tag_id, weight)) (app_tags a)) as)"

text \<open>Sequencing inside the \<open>try\<close> block: the first statement that throws ends it.\<close>

definition and_then :: "bool \<times> world \<Rightarrow> (world \<Rightarrow> bool \<times> world) \<Rightarrow> bool \<times> world" where
  "and_then r f = (case r of (True, w) \<Rightarrow> f w | (False, w) \<Rightarrow> (False, w))"

text \<open>The body of the \<open>try\<close> block: \<open>BEGIN\<close>, the two statements, \<open>COMMIT\<close>.\<close>

definition try_block :: "env \<Rightarrow> app list \<Rightarrow> world \<Rightarrow> bool \<times> world" where
  "try_block e as w =
     and_then (and_then (and_then (query e BEGIN w)
                                  (query e (AppQuery (app_rows as))))
                        (query e (TagsQuery (app_tag_rows as))))
              (query e COMMIT)"

text \<open>On a throw the \<open>catch\<close> block sends \<open>ROLLBACK\<close>, logs and returns \<open>false\<close>.\<close>

definition insertOrUpdateApps :: "env \<Rightarrow> app list \<Rightarrow> world \<Rightarrow> bool \<times> world" where
  "insertOrUpdateApps e as w =
     (case try_block e as w of
        (True, w') \<Rightarrow> (True, w')
      | (False, w') \<Rightarrow>
          (False, console_error ''Error inserting or updating apps:'' (snd (query e ROLLBACK w'))))"

section \<open>The sync job (src/unnamed/part_000, the module imported as jobs.js)\<close>

subsection \<open>getDataJson, setDataJson\<close>

definition getDataJson :: "world \<Rightarrow> data_json" where
  "getDataJson w =
     (case dataJson w of
        None \<Rightarrow> \<lparr>lastTagHash = None, lastAppTime = None\<rparr>
      | Some d \<Rightarrow> d)"

text \<open>
  The \<open>catch\<close> logs and returns normally: the caller gets \<open>undefined\<close> either way, so the
  function has no result to return here. A write that fails leaves the file as it was.
\<close>

definition setDataJson :: "env \<Rightarrow> data_json \<Rightarrow> world \<Rightarrow> world" where
  "setDataJson e d w =
     (if writeFileFails e then
        console_error ''Failed to write data.json:'' (w\<lparr>trace := trace w @ [WriteFile d]\<rparr>)
      else w\<lparr>dataJson := Some d, trace := trace w @ [WriteFile d]\<rparr>)"

subsection \<open>syncSteamTags, syncSteamApps, syncWithSteam\<close>

text \<open>
  \<open>if (data.lastTagHash)\<close> is a truthiness test: an absent or zero number takes the
  \<open>else\<close> branch, which calls the client with its default argument 0.
\<close>

definition truthy :: "int option \<Rightarrow> bool" where
  "truthy v = (case v of None \<Rightarrow> False | Some n \<Rightarrow> n \<noteq> 0)"

definition number_of :: "int option \<Rightarrow> int" where
  "number_of v = (case v of None \<Rightarrow> 0 | Some n \<Rightarrow> n)"

definition syncSteamTags :: "env \<Rightarrow> world \<Rightarrow> (error + unit) \<times> world" where
  "syncSteamTags e w =
     (let data = getDataJson w;
          hash = (if truthy (lastTagHash data) then number_of (lastTagHash data) else 0);
          w1 = w\<lparr>trace := trace w @ [GetTagList hash]\<rparr>
      in case getTagList (tagListApi e) hash of
           Inl err \<Rightarrow> (Inl err, w1)
         | Inr tagList \<Rightarrow>
             if tagList_tags tagList = [] then
               (Inr (), console_log ''No new Steam tags found'' w1)
             else
               (case insertOrUpdateTags e (tagList_tags tagList) w1 of
                  (False, w2) \<Rightarrow> (Inr (), w2)
                | (True, w2) \<Rightarrow>
                    (Inr (),
                     console_log ''Steam tags synced''
                       (setDataJson e (data\<lparr>lastTagHash := tagHash tagList\<rparr>) w2))))"

text \<open>
  The part of \<open>syncSteamApps\<close> after the listing has returned \<open>appList\<close>; the order of
  its steps is that of the source.
\<close>

definition syncSteamApps_rest :: "env \<Rightarrow> data_json \<Rightarrow> app_list \<Rightarrow> world \<Rightarrow> (error + unit) \<times> world" where
  "syncSteamApps_rest e data appList w =
     (if appList_apps appList = [] then
        (Inr (), console_log ''No new or updated Steam apps found'' w)
      else
        (case getSteamAppDetails (itemsApi e) (map (\<lambda>(appId, name). appId) (appList_apps appList)) of
           (Inl err, reqs) \<Rightarrow> (Inl err, w\<lparr>trace := trace w @ map GetItems reqs\<rparr>)
         | (Inr appDetails, reqs) \<Rightarrow>
             (case insertOrUpdateApps e appDetails (w\<lparr>trace := trace w @ map GetItems reqs\<rparr>) of
                (False, w2) \<Rightarrow> (Inr (), w2)
              | (True, w2) \<Rightarrow>
                  (Inr (),
                   console_log ''Steam apps synced''
                     (setDataJson e (data\<lparr>lastAppTime := Some (appList_time appList)\<rparr>) w2)))))"

text \<open>
  The result is \<open>None\<close> exactly when the listing's loop is not ended by the pages of
  \<open>appListApi\<close>.
\<close>

definition syncSteamApps :: "env \<Rightarrow> world \<Rightarrow> ((error + unit) \<times> world) option" where
  "syncSteamApps e w =
     (let data = getDataJson w in
      if truthy (lastAppTime data) then
        (case getSteamApps (now e) (appListApi e) (number_of (lastAppTime data)) of
           None \<Rightarrow> None
         | Some (Inl err, reqs) \<Rightarrow>
             Some (Inl err, w\<lparr>trace := trace w @ map (\<lambda>(since, last). GetAppList since last) reqs\<rparr>)
         | Some (Inr appList, reqs) \<Rightarrow>
             Some (syncSteamApps_rest e data appList
                     (w\<lparr>trace := trace w @ map (\<lambda>(since, last). GetAppList since last) reqs\<rparr>)))
      else
        (let w0 = console_log
               ''Looks like this is the first time syncing all apps with Steam. This may take a while.'' w
         in case getSteamApps (now e) (appListApi e) 0 of
              None \<Rightarrow> None
            | Some (Inl err, reqs) \<Rightarrow>
                Some (Inl err, w0\<lparr>trace := trace w0 @ map (\<lambda>(since, last). GetAppList since last) reqs\<rparr>)
            | Some (Inr appList, reqs) \<Rightarrow>
                Some (syncSteamApps_rest e data appList
                        (w0\<lparr>trace := trace w0 @ map (\<lambda>(since, last). GetAppList since last) reqs
                                @ [ConsoleLogCount ''Syncing details from ''
                                     (length (appList_apps appList))
                                     '' apps. This will take a long time.'']\<rparr>))))"

text \<open>
  One pass: the taxonomy feed, then the catalog feed. A throw of either leaves
  \<open>syncWithSteam\<close> at once. \<open>eT\<close> and \<open>eA\<close> are what the outside answers during the
  first and the second feed.
\<close>

definition syncWithSteam :: "env \<Rightarrow> env \<Rightarrow> world \<Rightarrow> ((error + unit) \<times> world) option" where
  "syncWithSteam eT eA w =
     (case syncSteamTags eT (console_log ''Syncing with Steam...'' w) of
        (Inl err, w1) \<Rightarrow> Some (Inl err, w1)
      | (Inr u, w1) \<Rightarrow>
          (case syncSteamApps eA w1 of
             None \<Rightarrow> None
           | Some (Inl err, w2) \<Rightarrow> Some (Inl err, w2)
           | Some (Inr u', w2) \<Rightarrow> Some (Inr (), console_log ''Syncing with Steam done'' w2)))"

section \<open>Notions used in the statements\<close>

subsection \<open>Pages of the identifier listing\<close>

text \<open>
  What a page contributes and how it leaves the loop: its identifiers, the cursor it
  hands to the next request, whether it carries identifiers and the loop goes on after
  it (a success with at least one identifier, the flag set and a cursor), carries
  identifiers and ends the loop (a success with at least one identifier whose flag is
  not set), or cuts the loop short (a success whose \<open>apps\<close> array is there and empty).
  A page without an \<open>apps\<close> field is none of the three.
\<close>

definition page_apps :: "app_list_page \<Rightarrow> (int \<times> string) list" where
  "page_apps p =
     (case p of
        Response ok st (Some r) \<Rightarrow> (case apps r of Some as \<Rightarrow> as | None \<Rightarrow> [])
      | _ \<Rightarrow> [])"

definition page_cursor :: "app_list_page \<Rightarrow> int option" where
  "page_cursor p = (case p of Response ok st (Some r) \<Rightarrow> last_appid r | _ \<Rightarrow> None)"

definition page_continues :: "app_list_page \<Rightarrow> bool" where
  "page_continues p =
     (case p of
        Response ok st (Some r) \<Rightarrow>
          ok \<and> (case apps r of None \<Rightarrow> False | Some as \<Rightarrow> as \<noteq> [])
          \<and> have_more_results r = Some True \<and> last_appid r \<noteq> None
      | _ \<Rightarrow> False)"

definition page_final :: "app_list_page \<Rightarrow> bool" where
  "page_final p =
     (case p of
        Response ok st (Some r) \<Rightarrow>
          ok \<and> (case apps r of None \<Rightarrow> False | Some as \<Rightarrow> as \<noteq> [])
          \<and> have_more_results r \<noteq> Some True
      | _ \<Rightarrow> False)"

definition page_empty :: "app_list_page \<Rightarrow> bool" where
  "page_empty p = (case p of Response ok st (Some r) \<Rightarrow> ok \<and> apps r = Some [] | _ \<Rightarrow> False)"

text \<open>
  The requests a listing keyed by the last-seen id sends for the given pages: the first
  carries the starting cursor, each later one the cursor of the page before it.
\<close>

fun requested :: "int \<Rightarrow> int option \<Rightarrow> app_list_page list \<Rightarrow> (int \<times> int) list" where
  "requested lastTime None ps = []"
| "requested lastTime (Some c) [] = []"
| "requested lastTime (Some c) (p # ps) = (lastTime, c) # requested lastTime (page_cursor p) ps"

text \<open>What a run of the listing returned and asked for, leaving its \<open>time\<close> aside.\<close>

definition listing_of ::
  "((error + app_list) \<times> (int \<times> int) list) option
    \<Rightarrow> ((error + (int \<times> string) list) \<times> (int \<times> int) list) option" where
  "listing_of run = map_option (\<lambda>(r, reqs). (map_sum id appList_apps r, reqs)) run"

subsection \<open>Sample inputs\<close>

definition page_A :: app_list_page where
  "page_A = Response True ''OK''
     (Some \<lparr>apps = Some [(3, ''Game C'')], have_more_results = Some True, last_appid = Some 3\<rparr>)"

definition page_B :: app_list_page where
  "page_B = Response True ''OK''
     (Some \<lparr>apps = Some [(7, ''Game G'')], have_more_results = Some False, last_appid = None\<rparr>)"

definition page_none_more :: app_list_page where
  "page_none_more = Response True ''OK''
     (Some \<lparr>apps = Some [], have_more_results = Some True, last_appid = Some 5\<rparr>)"

definition page_bare :: app_list_page where
  "page_bare = Response True ''OK''
     (Some \<lparr>apps = None, have_more_results = None, last_appid = None\<rparr>)"

definition item_B :: "int \<Rightarrow> store_item" where
  "item_B i = \<lparr>appid = i, name = ''Game'', full_description = ''About'', tags = None,
               unvailable_for_country_restriction = (if i = 7 then Some True else None)\<rparr>"

definition itemsApi_B :: "int list \<Rightarrow> items_page" where
  "itemsApi_B chunk = Response True ''OK'' (Some (map item_B chunk))"

definition ids600 :: "int list" where
  "ids600 = map int [0..<600]"

definition tables0 :: tables where
  "tables0 = \<lparr>app_table = Map.empty, tags_table = Map.empty, app_tags_table = Map.empty\<rparr>"

text \<open>The tables once tags 1 and 2 are stored.\<close>

definition tables_tagged :: tables where
  "tables_tagged = tables0\<lparr>tags_table := [1 \<mapsto> ''Action'', 2 \<mapsto> ''RPG'']\<rparr>"

definition world0 :: world where
  "world0 = \<lparr>dataJson = None, db = \<lparr>committed = tables0, txn = None\<rparr>, trace = []\<rparr>"

definition item_A :: "int \<Rightarrow> store_item" where
  "item_A i = \<lparr>appid = i, name = ''Game A'', full_description = ''About A'',
               tags = Some [(1, 5)], unvailable_for_country_restriction = None\<rparr>"

text \<open>
  An outside where everything works: two tags under hash 77, one updated app (id 10) as
  of time 1000, its details with tag 1 at weight 5.
\<close>

definition env_ok :: env where
  "env_ok =
     \<lparr>now = 1000,
      tagListApi = (\<lambda>h. Response True ''OK''
         (Some \<lparr>response_tags = Some [(1, ''Action''), (2, ''RPG'')], version_hash = Some 77\<rparr>)),
      appListApi = [Response True ''OK''
         (Some \<lparr>apps = Some [(10, ''Game A'')], have_more_results = Some False,
                last_appid = None\<rparr>)],
      itemsApi = (\<lambda>chunk. Response True ''OK'' (Some (map item_A chunk))),
      queryFails = (\<lambda>s. False),
      writeFileFails = False\<rparr>"

text \<open>The same outside, except that the database refuses the weight statement.\<close>

definition env_tags_refused :: env where
  "env_tags_refused = env_ok\<lparr>queryFails := (\<lambda>s. case s of TagsQuery rows \<Rightarrow> True | _ \<Rightarrow> False)\<rparr>"

text \<open>
  A database in which app 10 is already stored, with a color and a player count, and no
  tag is.
\<close>

definition world_stored :: world where
  "world_stored =
     world0\<lparr>db := \<lparr>committed = tables0\<lparr>app_table :=
                    [10 \<mapsto> \<lparr>row_name = ''Old name'', row_description = ''Old text'',
                            row_color = Some ''#ff0000'', row_player_count = Some 42\<rparr>]\<rparr>,
                  txn = None\<rparr>\<rparr>"

text \<open>The same outside with one part of it failing, or with nothing new to report.\<close>

definition env_tags_down :: env where
  "env_tags_down = env_ok\<lparr>tagListApi := (\<lambda>h. Response False ''Service Unavailable'' None)\<rparr>"




definition env_taglist_refused :: env where
  "env_taglist_refused =
     env_ok\<lparr>queryFails := (\<lambda>s. case s of TagListQuery rows \<Rightarrow> True | _ \<Rightarrow> False)\<rparr>"

definition env_write_fails :: env where
  "env_write_fails = env_ok\<lparr>writeFileFails := True\<rparr>"

definition env_quiet :: env where
  "env_quiet = env_ok\<lparr>tagListApi := (\<lambda>h. Response True ''OK''
                          (Some \<lparr>response_tags = None, version_hash = Some 77\<rparr>)),
                       appListApi := [page_bare]\<rparr>"

text \<open>
  A world left by an earlier pass: tags 1 and 2 are stored, hash 55 and time 900 are on
  file.
\<close>

definition world_marked :: world where
  "world_marked =
     \<lparr>dataJson = Some \<lparr>lastTagHash = Some 55, lastAppTime = Some 900\<rparr>,
      db = \<lparr>committed = tables_tagged, txn = None\<rparr>,
      trace = []\<rparr>"

text \<open>
  A database in which tags 1 and 2 are stored, and app 10 with a color and a player
  count.
\<close>

definition world_colored :: world where
  "world_colored =
     world0\<lparr>db := \<lparr>committed = tables_tagged\<lparr>app_table :=
                    [10 \<mapsto> \<lparr>row_name = ''Old name'', row_description = ''Old text'',
                            row_color = Some ''#ff0000'', row_player_count = Some 42\<rparr>]\<rparr>,
                  txn = None\<rparr>\<rparr>"

subsection \<open>What a feed sends, and how a pass ends\<close>

text \<open>The hash and the time a feed started in world \<open>w\<close> passes to the remote.\<close>

definition sent_hash :: "world \<Rightarrow> int" where
  "sent_hash w = number_of (lastTagHash (getDataJson w))"

definition sent_time :: "world \<Rightarrow> int" where
  "sent_time w = number_of (lastAppTime (getDataJson w))"

text \<open>The end of \<open>syncWithSteam\<close> once the catalog feed is over.\<close>

definition finish_pass :: "(error + unit) \<times> world \<Rightarrow> (error + unit) \<times> world" where
  "finish_pass r =
     (case r of
        (Inl err, w) \<Rightarrow> (Inl err, w)
      | (Inr u, w) \<Rightarrow> (Inr (), console_log ''Syncing with Steam done'' w))"

subsection \<open>Events that write\<close>

text \<open>The events by which the job changes the database or \<open>data.json\<close>.\<close>

fun is_write :: "event \<Rightarrow> bool" where
  "is_write (Query s) = True"
| "is_write (WriteFile d) = True"
| "is_write ev = False"

section \<open>Unfolding the model on the sample inputs\<close>

lemmas sample_defs =
  env_ok_def world0_def world_marked_def tables0_def tables_tagged_def item_A_def

lemmas client_defs =
  getSteamApps_def getSteamAppDetails_def getTagList_def item_to_app_def

lemmas store_defs =
  insertOrUpdateTags_def insertOrUpdateApps_def try_block_def and_then_def query_def in_txn_def
  upsert_tags_def upsert_apps_def upsert_app_tags_def app_rows_def app_tag_rows_def

lemmas job_defs =
  syncWithSteam_def syncSteamTags_def syncSteamApps_def syncSteamApps_rest_def
  getDataJson_def setDataJson_def truthy_def number_of_def console_log_def console_error_def

section \<open>Properties of the remote catalog client\<close>

subsection \<open>The identifier listing\<close>

lemma requested_Nil [simp]: "requested lastTime c [] = []"
  by (cases c) simp_all

text \<open>
  Pages after which the loop goes on are consumed one by one; each adds its identifiers
  and hands its cursor to the next request.
\<close>

lemma getSteamApps_loop_pages:
  "\<forall>p\<in>set ps. page_continues p \<Longrightarrow> page_final lastp \<Longrightarrow>
   getSteamApps_loop (ps @ lastp # rest) time lastTime (Some c) acc reqs =
     Some (Inr \<lparr>appList_apps = acc @ concat (map page_apps (ps @ [lastp])), appList_time = time\<rparr>,
           reqs @ requested lastTime (Some c) (ps @ [lastp]))"
proof (induction ps arbitrary: c acc reqs)
  case Nil
  then show ?case
    by (cases lastp) (auto simp: page_final_def page_apps_def split: option.splits)
next
  case (Cons p ps)
  from Cons.prems(1) have pc: "page_continues p" and rest: "\<forall>p\<in>set ps. page_continues p"
    by simp_all
  from pc obtain st r c' where p: "p = Response True st (Some r)" and a: "apps r \<noteq> Some []"
    and m: "have_more_results r = Some True" and l: "last_appid r = Some c'"
    by (cases p) (auto simp: page_continues_def split: option.splits)
  have pa: "page_apps p = (case apps r of None \<Rightarrow> [] | Some as \<Rightarrow> as)"
    by (simp add: p page_apps_def)
  have pcur: "page_cursor p = Some c'"
    by (simp add: p page_cursor_def l)
  show ?case
    using Cons.IH [OF rest Cons.prems(2)] a m l pa pcur
    by (simp add: p)
qed

lemma getSteamApps_loop_empty:
  "page_empty p \<Longrightarrow>
   getSteamApps_loop (p # rest) time lastTime (Some c) acc reqs =
     Some (Inr \<lparr>appList_apps = [], appList_time = lastTime\<rparr>, reqs @ [(lastTime, c)])"
  by (cases p) (auto simp: page_empty_def split: option.splits)

text \<open>
  Claim C3. A first page that carries zero identifiers should make \<open>getSteamApps\<close> return
  the input \<open>lastTime\<close>. When the page has no \<open>apps\<close> field at all (the answer
  \<open>{"response": {}}\<close>), \<open>data.response?.apps?.length === 0\<close> is false, the loop ends on
  the unset flag, and the function returns \<open>Date.now()\<close> (here 2000) instead of the input
  1000.
\<close>

theorem getSteamApps_first_page_without_apps:
  "getSteamApps 2000 [page_bare] 1000 =
     Some (Inr \<lparr>appList_apps = [], appList_time = 2000\<rparr>, [(1000, 0)])"
  by (simp add: getSteamApps_def page_bare_def)

text \<open>
  Claim C6, as the source has it. When every page carries at least one identifier, every
  page before the last is a success with the more-results flag set and a cursor, and the
  last is a success whose flag is not set, the listing sends one request per page, the
  first keyed by 0 and each later one by the \<open>last_appid\<close> of the page before, stops at
  that last page (the answers after it are never asked for), and returns all pages'
  identifiers in order. A first page whose \<open>apps\<close> array is empty ends the listing at
  once, whatever its flag, with no identifiers.
\<close>

theorem getSteamApps_pagination:
  "((\<forall>p\<in>set ps. page_continues p) \<and> page_final lastp \<longrightarrow>
     listing_of (getSteamApps time (ps @ lastp # rest) lastTime) =
       Some (Inr (concat (map page_apps (ps @ [lastp]))),
             requested lastTime (Some 0) (ps @ [lastp])))
   \<and> (page_empty p \<longrightarrow>
     listing_of (getSteamApps time (p # rest') lastTime) = Some (Inr [], [(lastTime, 0)]))"
proof (intro conjI impI)
  assume "(\<forall>p\<in>set ps. page_continues p) \<and> page_final lastp"
  then show "listing_of (getSteamApps time (ps @ lastp # rest) lastTime) =
       Some (Inr (concat (map page_apps (ps @ [lastp]))),
             requested lastTime (Some 0) (ps @ [lastp]))"
    using getSteamApps_loop_pages [of ps lastp rest time lastTime 0 "[]" "[]"]
    by (simp add: getSteamApps_def listing_of_def)
next
  assume "page_empty p"
  then show "listing_of (getSteamApps time (p # rest') lastTime) = Some (Inr [], [(lastTime, 0)])"
    using getSteamApps_loop_empty [of p rest' time lastTime 0 "[]" "[]"]
    by (simp add: getSteamApps_def listing_of_def)
qed

text \<open>
  Two pages with one identifier each, the first with the flag set and cursor 3, then an
  answer that is never asked for; and a first page with an empty array and the flag set.
\<close>

theorem getSteamApps_pagination_witness:
  "listing_of (getSteamApps 2000 [page_A, page_B, Rejected] 1000) =
     Some (Inr [(3, ''Game C''), (7, ''Game G'')], [(1000, 0), (1000, 3)])
   \<and> listing_of (getSteamApps 2000 [page_none_more, page_B] 1000) =
     Some (Inr [], [(1000, 0)])"
proof -
  have going: "\<forall>p\<in>set [page_A]. page_continues p"
    by (simp add: page_continues_def page_A_def)
  have final: "page_final page_B"
    by (simp add: page_final_def page_B_def)
  have empty: "page_empty page_none_more"
    by (simp add: page_empty_def page_none_more_def)
  show ?thesis
    using getSteamApps_pagination [of "[page_A]" page_B 2000 "[Rejected]" 1000 page_none_more "[page_B]"]
      going final empty
    by (simp add: page_apps_def page_cursor_def page_A_def page_B_def)
qed

text \<open>
  Claim C6 as stated fails: the first page below has the more-results flag set and an
  empty \<open>apps\<close> array. The listing stops on it after one request and returns nothing,
  although the flag asks for another page and the next page carries an identifier: what
  it returns and asks for is not the pages' identifiers and the two requests.
\<close>

theorem getSteamApps_stops_on_empty_page:
  "getSteamApps 2000 [page_none_more, page_B] 1000 =
     Some (Inr \<lparr>appList_apps = [], appList_time = 1000\<rparr>, [(1000, 0)])
   \<and> listing_of (getSteamApps 2000 [page_none_more, page_B] 1000) \<noteq>
     Some (Inr (concat (map page_apps [page_none_more, page_B])),
           requested 1000 (Some 0) [page_none_more, page_B])"
  by (simp add: getSteamApps_def listing_of_def page_none_more_def page_B_def page_apps_def
      page_cursor_def)

subsection \<open>The detail fetch\<close>

text \<open>The chunks are the consecutive slices of 250: chunk \<open>k\<close> starts at index \<open>250 * k\<close>.\<close>

lemma chunks_from_slices:
  "chunks_from (250 * j) xs =
     map (\<lambda>k. take 250 (drop (250 * k) xs)) [j..<(length xs + 249) div 250]"
proof (induction "250 * j" xs arbitrary: j rule: chunks_from.induct)
  case (1 xs)
  show ?case
  proof (cases "250 * j < length xs")
    case True
    then have lt: "j < (length xs + 249) div 250" by linarith
    have "chunks_from (250 * j) xs = take 250 (drop (250 * j) xs) # chunks_from (250 * Suc j) xs"
      using True by (subst chunks_from.simps) (simp add: add.commute)
    also have "chunks_from (250 * Suc j) xs =
        map (\<lambda>k. take 250 (drop (250 * k) xs)) [Suc j..<(length xs + 249) div 250]"
      using "1" [of "Suc j"] True by simp
    finally show ?thesis
      using lt by (simp add: upt_conv_Cons)
  next
    case False
    then have "\<not> j < (length xs + 249) div 250" by linarith
    then show ?thesis using False by (subst chunks_from.simps) simp
  qed
qed

text \<open>Put back together, the chunks are the list they were cut from.\<close>

lemma concat_chunks_from:
  "i \<le> length xs \<Longrightarrow> concat (chunks_from i xs) = drop i xs"
proof (induction i xs rule: chunks_from.induct)
  case (1 i xs)
  show ?case
  proof (cases "i < length xs")
    case True
    show ?thesis
    proof (cases "i + 250 \<le> length xs")
      case le: True
      then have "concat (chunks_from (i + 250) xs) = drop (i + 250) xs"
        using "1" True by simp
      then have "concat (chunks_from i xs) = take 250 (drop i xs) @ drop 250 (drop i xs)"
        using True by (subst chunks_from.simps) (simp add: add.commute)
      also have "\<dots> = drop i xs"
        by (rule append_take_drop_id)
      finally show ?thesis .
    next
      case gt: False
      then have "chunks_from (i + 250) xs = []"
        by (subst chunks_from.simps) simp
      then show ?thesis
        using True gt by (subst chunks_from.simps) simp
    qed
  next
    case False
    then show ?thesis using "1.prems" by (subst chunks_from.simps) simp
  qed
qed

text \<open>
  When the remote answers every chunk with the items asked for, the loop requests the
  chunks in order and collects the items that are not flagged.
\<close>

lemma fetch_chunks_served:
  "\<forall>c\<in>set chunks. \<exists>st. api c = Response True st (Some (map item_of c)) \<Longrightarrow>
   fetch_chunks api chunks acc reqs =
     (Inr (acc @ filter (\<lambda>item. unvailable_for_country_restriction item \<noteq> Some True)
                   (map item_of (concat chunks))),
      reqs @ chunks)"
proof (induction chunks arbitrary: acc reqs)
  case Nil
  then show ?case by simp
next
  case (Cons c cs)
  then obtain st where "api c = Response True st (Some (map item_of c))" by auto
  then show ?case using Cons by simp
qed

lemma length_ids600: "length ids600 = 600"
  by (simp add: ids600_def)

text \<open>
  Claim C7. The requested ids are cut into the consecutive slices of 250 (the \<open>k\<close>-th
  chunk is \<open>ids[250k .. 250k + 250)\<close>, and there are \<open>\<lceil>n / 250\<rceil>\<close> of them), which put
  back together give the ids, each position once. One request is sent per chunk, in
  order. When the remote answers every chunk with the items asked for, the result is the
  requested ids in order, each as often as it was requested, without those the remote
  flags as unavailable; so ids requested once come back once.
\<close>

theorem getSteamAppDetails_chunks:
  assumes served:
      "\<forall>c\<in>set (chunks_from 0 ids). \<exists>st. api c = Response True st (Some (map item_of c))"
    and same: "\<forall>i\<in>set ids. appid (item_of i) = i"
  shows "chunks_from 0 ids =
           map (\<lambda>k. take 250 (drop (250 * k) ids)) [0..<(length ids + 249) div 250]
    \<and> concat (chunks_from 0 ids) = ids
    \<and> getSteamAppDetails api ids =
        (Inr (map item_to_app
                (filter (\<lambda>item. unvailable_for_country_restriction item \<noteq> Some True)
                   (map item_of ids))),
         chunks_from 0 ids)
    \<and> map appId (map item_to_app
                (filter (\<lambda>item. unvailable_for_country_restriction item \<noteq> Some True)
                   (map item_of ids))) =
        filter (\<lambda>i. unvailable_for_country_restriction (item_of i) \<noteq> Some True) ids
    \<and> (distinct ids \<longrightarrow>
         distinct (map appId (map item_to_app
                (filter (\<lambda>item. unvailable_for_country_restriction item \<noteq> Some True)
                   (map item_of ids)))))"
proof -
  let ?avail = "\<lambda>item. unvailable_for_country_restriction item \<noteq> Some True"
  have slices: "chunks_from 0 ids =
      map (\<lambda>k. take 250 (drop (250 * k) ids)) [0..<(length ids + 249) div 250]"
    using chunks_from_slices [of 0 ids] by simp
  have whole: "concat (chunks_from 0 ids) = ids"
    using concat_chunks_from [of 0 ids] by simp
  have run: "getSteamAppDetails api ids =
      (Inr (map item_to_app (filter ?avail (map item_of ids))), chunks_from 0 ids)"
    using fetch_chunks_served [OF served, of "[]" "[]"] whole
    by (simp add: getSteamAppDetails_def)
  have ids: "map appId (map item_to_app (filter ?avail (map item_of ids))) =
      filter (\<lambda>i. ?avail (item_of i)) ids"
    using same by (induction ids) (auto simp: item_to_app_def)
  have "distinct ids \<longrightarrow> distinct (map appId (map item_to_app (filter ?avail (map item_of ids))))"
    unfolding ids by simp
  with slices whole run ids show ?thesis
    by blast
qed

text \<open>600 ids, of which the remote flags id 7: three requests, of 250, 250 and 100 ids.\<close>

theorem getSteamAppDetails_chunks_witness:
  "map length (snd (getSteamAppDetails itemsApi_B ids600)) = [250, 250, 100]
   \<and> concat (snd (getSteamAppDetails itemsApi_B ids600)) = ids600
   \<and> map_sum id (map appId) (fst (getSteamAppDetails itemsApi_B ids600)) =
       Inr (filter (\<lambda>i. i \<noteq> 7) ids600)
   \<and> distinct (filter (\<lambda>i. i \<noteq> 7) ids600)"
proof -
  have served:
    "\<forall>c\<in>set (chunks_from 0 ids600). \<exists>st. itemsApi_B c = Response True st (Some (map item_B c))"
    by (simp add: itemsApi_B_def)
  have same: "\<forall>i\<in>set ids600. appid (item_B i) = i"
    by (simp add: item_B_def)
  have dist: "distinct ids600"
    by (simp add: ids600_def distinct_map)
  have flagged: "(\<lambda>i. unvailable_for_country_restriction (item_B i) \<noteq> Some True) = (\<lambda>i. i \<noteq> 7)"
    by (simp add: item_B_def fun_eq_iff)
  have sizes: "map length (map (\<lambda>k. take 250 (drop (250 * k) ids600))
      [0..<(length ids600 + 249) div 250]) = [250, 250, 100]"
    by (simp add: length_ids600 upt_rec)
  note fetched = getSteamAppDetails_chunks [OF served same]
  let ?kept = "map item_to_app
      (filter (\<lambda>item. unvailable_for_country_restriction item \<noteq> Some True) (map item_B ids600))"
  have slices: "chunks_from 0 ids600 =
      map (\<lambda>k. take 250 (drop (250 * k) ids600)) [0..<(length ids600 + 249) div 250]"
    using fetched by blast
  have whole: "concat (chunks_from 0 ids600) = ids600"
    using fetched by blast
  have run: "getSteamAppDetails itemsApi_B ids600 = (Inr ?kept, chunks_from 0 ids600)"
    using fetched by blast
  have kept: "map appId ?kept = filter (\<lambda>i. i \<noteq> 7) ids600"
    using fetched unfolding flagged by blast
  have once: "distinct (map appId ?kept)"
    using fetched dist by blast
  have "map length (snd (getSteamAppDetails itemsApi_B ids600)) = [250, 250, 100]"
    unfolding run snd_conv slices by (rule sizes)
  moreover have "concat (snd (getSteamAppDetails itemsApi_B ids600)) = ids600"
    unfolding run snd_conv by (rule whole)
  moreover have "map_sum id (map appId) (fst (getSteamAppDetails itemsApi_B ids600)) =
      Inr (filter (\<lambda>i. i \<noteq> 7) ids600)"
    unfolding run fst_conv by (simp only: map_sum.simps kept)
  moreover have "distinct (filter (\<lambda>i. i \<noteq> 7) ids600)"
    using once unfolding kept .
  ultimately show ?thesis
    by blast
qed

subsection \<open>The player count\<close>

text \<open>
  Claim C10 as stated fails: an answer with success status whose body has no \<open>response\<close>
  object lacks a \<open>player_count\<close>, and \<open>data.response.player_count\<close> throws on it.
\<close>

theorem getPlayerCount_throws:
  "getPlayerCount (\<lambda>i. Response True ''OK'' None) 440 = Inl TypeError"
  by (simp add: getPlayerCount_def)

text \<open>
  Claim C10, as the source has it. \<open>getPlayerCount\<close> returns 0 when the status is not a
  success and when the body's \<open>response\<close> object has no \<open>player_count\<close>, and the remote's
  \<open>player_count\<close> when it has one. It throws when \<open>fetch\<close> rejects and when a success
  answer's body has no \<open>response\<close> object.
\<close>

theorem getPlayerCount_result:
  "(api i = Response False st body \<longrightarrow> getPlayerCount api i = Inr 0)
   \<and> (api i = Response True st (Some None) \<longrightarrow> getPlayerCount api i = Inr 0)
   \<and> (api i = Response True st (Some (Some n)) \<longrightarrow> getPlayerCount api i = Inr n)
   \<and> (api i = Rejected \<longrightarrow> getPlayerCount api i = Inl FetchRejected)
   \<and> (api i = Response True st None \<longrightarrow> getPlayerCount api i = Inl TypeError)"
  by (simp add: getPlayerCount_def)

theorem getPlayerCount_result_witness:
  "getPlayerCount (\<lambda>i. Response False ''Not Found'' None) 440 = Inr 0
   \<and> getPlayerCount (\<lambda>i. Response True ''OK'' (Some None)) 440 = Inr 0
   \<and> getPlayerCount (\<lambda>i. Response True ''OK'' (Some (Some 1234))) 440 = Inr 1234
   \<and> getPlayerCount (\<lambda>i. Rejected) 440 = Inl FetchRejected
   \<and> getPlayerCount (\<lambda>i. Response True ''OK'' None) 570 = Inl TypeError"
proof -
  note c = getPlayerCount_result
  have "getPlayerCount (\<lambda>i. Response False ''Not Found'' None) 440 = Inr 0"
    using c [of "\<lambda>i. Response False ''Not Found'' None" 440 "''Not Found''" None 0] by simp
  moreover have "getPlayerCount (\<lambda>i. Response True ''OK'' (Some None)) 440 = Inr 0"
    using c [of "\<lambda>i. Response True ''OK'' (Some None)" 440 "''OK''" None 0] by simp
  moreover have "getPlayerCount (\<lambda>i. Response True ''OK'' (Some (Some 1234))) 440 = Inr 1234"
    using c [of "\<lambda>i. Response True ''OK'' (Some (Some 1234))" 440 "''OK''" None 1234] by simp
  moreover have "getPlayerCount (\<lambda>i. Rejected) 440 = Inl FetchRejected"
    using c [of "\<lambda>i. Rejected" 440 "''OK''" None 0] by simp
  moreover have "getPlayerCount (\<lambda>i. Response True ''OK'' None) 570 = Inl TypeError"
    using c [of "\<lambda>i. Response True ''OK'' None" 570 "''OK''" None 0] by simp
  ultimately show ?thesis
    by blast
qed

section \<open>Properties of the store writer\<close>

subsection \<open>What a statement leaves alone\<close>

lemma fst_query: "fst (query e s w) = (\<not> (s \<noteq> ROLLBACK \<and> queryFails e s))"
  by (simp add: query_def)

lemma dataJson_query [simp]: "dataJson (snd (query e s w)) = dataJson w"
  by (simp add: query_def)

lemma db_rollback: "db (snd (query e ROLLBACK w)) = (db w)\<lparr>txn := None\<rparr>"
  by (simp add: query_def)

lemma dataJson_console_log [simp]: "dataJson (console_log m w) = dataJson w"
  by (simp add: console_log_def)

lemma dataJson_console_error [simp]: "dataJson (console_error m w) = dataJson w"
  by (simp add: console_error_def)

lemma db_console_log [simp]: "db (console_log m w) = db w"
  by (simp add: console_log_def)

lemma db_console_error [simp]: "db (console_error m w) = db w"
  by (simp add: console_error_def)

lemma fst_and_then: "fst (and_then r f) = (fst r \<and> fst (f (snd r)))"
  by (cases r) (auto simp: and_then_def split: bool.splits)

lemma snd_and_then: "snd (and_then r f) = (if fst r then snd (f (snd r)) else snd r)"
  by (cases r) (auto simp: and_then_def split: bool.splits)

lemma tags_table_upsert_apps [simp]: "tags_table (upsert_apps rows t) = tags_table t"
  unfolding upsert_apps_def by (induction rows arbitrary: t) (auto split: prod.splits)

lemma tags_table_upsert_app_tags [simp]: "tags_table (upsert_app_tags rows t) = tags_table t"
  unfolding upsert_app_tags_def by (induction rows arbitrary: t) (auto split: prod.splits)

lemma app_table_upsert_tags [simp]: "app_table (upsert_tags rows t) = app_table t"
  unfolding upsert_tags_def by (induction rows arbitrary: t) (auto split: prod.splits)

lemma app_tags_table_upsert_tags [simp]: "app_tags_table (upsert_tags rows t) = app_tags_table t"
  unfolding upsert_tags_def by (induction rows arbitrary: t) (auto split: prod.splits)

subsection \<open>insertOrUpdateTags\<close>

lemma tag_rows_same [simp]: "map (\<lambda>(tag_id, tag_name). (tag_id, tag_name)) tgs = tgs"
  by (induction tgs) auto

lemma fst_insertOrUpdateTags:
  "fst (insertOrUpdateTags e tgs w) = (\<not> queryFails e (TagListQuery tgs))"
  by (simp add: insertOrUpdateTags_def query_def)

lemma dataJson_insertOrUpdateTags [simp]:
  "dataJson (snd (insertOrUpdateTags e tgs w)) = dataJson w"
  by (simp add: insertOrUpdateTags_def query_def)

lemma insertOrUpdateTags_app_tables [simp]:
  "app_table (committed (db (snd (insertOrUpdateTags e tgs w)))) = app_table (committed (db w))"
  "app_tags_table (committed (db (snd (insertOrUpdateTags e tgs w)))) =
     app_tags_table (committed (db w))"
  by (simp_all add: insertOrUpdateTags_def query_def)

subsection \<open>insertOrUpdateApps\<close>

lemma insertOrUpdateApps_cases:
  "insertOrUpdateApps e as w =
     (if fst (try_block e as w) then (True, snd (try_block e as w))
      else (False, console_error ''Error inserting or updating apps:''
                     (snd (query e ROLLBACK (snd (try_block e as w))))))"
  by (cases "try_block e as w") (auto simp: insertOrUpdateApps_def split: bool.splits)

lemma fst_try_block:
  "fst (try_block e as w) =
     (\<not> queryFails e BEGIN \<and> \<not> queryFails e (AppQuery (app_rows as))
      \<and> \<not> queryFails e (TagsQuery (app_tag_rows as)) \<and> \<not> queryFails e COMMIT)"
  by (simp add: try_block_def fst_and_then fst_query)

lemma dataJson_try_block [simp]: "dataJson (snd (try_block e as w)) = dataJson w"
  by (simp add: try_block_def snd_and_then)

text \<open>A \<open>try\<close> block that throws has published nothing.\<close>

lemma try_block_refused:
  "\<not> fst (try_block e as w) \<Longrightarrow> committed (db (snd (try_block e as w))) = committed (db w)"
  by (auto simp: try_block_def snd_and_then fst_and_then query_def in_txn_def
           split: if_splits option.splits)

lemma try_block_tags_table:
  "tags_table (committed (db (snd (try_block e as w)))) = tags_table (committed (db w))"
  by (auto simp: try_block_def snd_and_then fst_and_then query_def in_txn_def
           split: if_splits option.splits)

lemma fst_insertOrUpdateApps:
  "fst (insertOrUpdateApps e as w) =
     (\<not> queryFails e BEGIN \<and> \<not> queryFails e (AppQuery (app_rows as))
      \<and> \<not> queryFails e (TagsQuery (app_tag_rows as)) \<and> \<not> queryFails e COMMIT)"
  by (simp add: insertOrUpdateApps_cases fst_try_block)

lemma dataJson_insertOrUpdateApps [simp]:
  "dataJson (snd (insertOrUpdateApps e as w)) = dataJson w"
  by (simp add: insertOrUpdateApps_cases)

lemma insertOrUpdateApps_tags_table [simp]:
  "tags_table (committed (db (snd (insertOrUpdateApps e as w)))) = tags_table (committed (db w))"
  by (simp add: insertOrUpdateApps_cases db_rollback try_block_tags_table)

text \<open>
  Claim C2. When the database refuses the weight statement of a call, the call returns
  \<open>false\<close>, no transaction is left open, and what the database shows afterwards is what
  it showed before the call: the item rows written earlier in the same transaction are
  dropped by the \<open>ROLLBACK\<close>.
\<close>

theorem insertOrUpdateApps_rollback:
  assumes refused: "queryFails e (TagsQuery (app_tag_rows as))"
  shows "fst (insertOrUpdateApps e as w) = False
    \<and> committed (db (snd (insertOrUpdateApps e as w))) = committed (db w)
    \<and> txn (db (snd (insertOrUpdateApps e as w))) = None"
proof -
  have thrown: "\<not> fst (try_block e as w)"
    using refused by (simp add: fst_try_block)
  have unpublished: "committed (db (snd (try_block e as w))) = committed (db w)"
    using thrown by (rule try_block_refused)
  show ?thesis
    using thrown unpublished by (simp add: insertOrUpdateApps_cases db_rollback)
qed

text \<open>
  App 10 is stored; the call sends new item fields for it and then a weight row that the
  database refuses. The item statement was sent, and the stored row is the old one.
\<close>

theorem insertOrUpdateApps_rollback_witness:
  "fst (insertOrUpdateApps env_tags_refused [item_to_app (item_A 10)] world_stored) = False
   \<and> committed (db (snd (insertOrUpdateApps env_tags_refused [item_to_app (item_A 10)] world_stored)))
       = committed (db world_stored)
   \<and> txn (db (snd (insertOrUpdateApps env_tags_refused [item_to_app (item_A 10)] world_stored)))
       = None
   \<and> trace (snd (insertOrUpdateApps env_tags_refused [item_to_app (item_A 10)] world_stored)) =
       [Query BEGIN, Query (AppQuery [(10, ''Game A'', ''About A'', None, None)]),
        Query (TagsQuery [(10, 1, 5)]), Query ROLLBACK,
        ConsoleError ''Error inserting or updating apps:'']"
proof -
  have refused:
    "queryFails env_tags_refused (TagsQuery (app_tag_rows [item_to_app (item_A 10)]))"
    by (simp add: env_tags_refused_def env_ok_def)
  have sent: "trace (snd (insertOrUpdateApps env_tags_refused [item_to_app (item_A 10)] world_stored)) =
       [Query BEGIN, Query (AppQuery [(10, ''Game A'', ''About A'', None, None)]),
        Query (TagsQuery [(10, 1, 5)]), Query ROLLBACK,
        ConsoleError ''Error inserting or updating apps:'']"
    by (simp add: insertOrUpdateApps_def try_block_def and_then_def query_def console_error_def
        env_tags_refused_def env_ok_def world_stored_def world0_def app_rows_def app_tag_rows_def
        item_to_app_def item_A_def)
  show ?thesis
    using insertOrUpdateApps_rollback [OF refused, of world_stored] sent by simp
qed

text \<open>
  Claim C8. An item without \<open>color\<close> and \<open>playerCount\<close> should be stored with the
  sentinel color \<open>#000000\<close> and the count 0. \<open>appQuery\<close> lists both columns and passes
  \<open>app.color\<close> and \<open>app.playerCount\<close> as they are, so the row gets \<open>NULL\<close> in both.
  First, a whole pass on an empty database: the taxonomy feed stores tags 1 and 2, the
  catalog feed then inserts app 10 with its weight for tag 1, and the new row has
  neither color nor count. Second, a call for app 10 on a database that holds tags 1
  and 2 and app 10 with color \<open>#ff0000\<close> and count 42: the update puts \<open>NULL\<close> over
  both.
\<close>

theorem insertOrUpdateApps_stores_null:
  "map_option (\<lambda>(r, w). (r, tags_table (committed (db w)) 1, app_table (committed (db w)) 10,
                          app_tags_table (committed (db w)) (10, 1)))
      (syncWithSteam env_ok env_ok world0) =
     Some (Inr (), Some ''Action'',
           Some \<lparr>row_name = ''Game A'', row_description = ''About A'',
                 row_color = None, row_player_count = None\<rparr>,
           Some 5)
   \<and> tags_table (committed (db world_colored)) 1 = Some ''Action''
   \<and> app_table (committed (db world_colored)) 10 =
     Some \<lparr>row_name = ''Old name'', row_description = ''Old text'',
           row_color = Some ''#ff0000'', row_player_count = Some 42\<rparr>
   \<and> fst (insertOrUpdateApps env_ok [item_to_app (item_A 10)] world_colored) = True
   \<and> app_table (committed (db (snd (insertOrUpdateApps env_ok [item_to_app (item_A 10)] world_colored)))) 10 =
     Some \<lparr>row_name = ''Game A'', row_description = ''About A'',
           row_color = None, row_player_count = None\<rparr>"
  by (simp add: sample_defs world_colored_def client_defs store_defs job_defs chunks_from.simps)

section \<open>Properties of the sync job\<close>

subsection \<open>The watermark file\<close>

lemma number_of_truthy: "(if truthy v then number_of v else 0) = number_of v"
  by (cases v) (auto simp: truthy_def number_of_def)

lemma getDataJson_trace [simp]: "getDataJson (w\<lparr>trace := t\<rparr>) = getDataJson w"
  by (simp add: getDataJson_def)

lemma getDataJson_console_log [simp]: "getDataJson (console_log m w) = getDataJson w"
  by (simp add: getDataJson_def)

lemma getDataJson_written [simp]: "getDataJson (w\<lparr>dataJson := Some d\<rparr>) = d"
  by (simp add: getDataJson_def)

lemma setDataJson_failed:
  "writeFileFails e \<Longrightarrow>
   setDataJson e d w = w\<lparr>trace := trace w @ [WriteFile d, ConsoleError ''Failed to write data.json:'']\<rparr>"
  by (simp add: setDataJson_def console_error_def)

lemma dataJson_setDataJson:
  "dataJson (setDataJson e d w) = (if writeFileFails e then dataJson w else Some d)"
  by (simp add: setDataJson_def)

lemma db_setDataJson [simp]: "db (setDataJson e d w) = db w"
  by (simp add: setDataJson_def)

subsection \<open>The taxonomy feed, case by case\<close>

lemma syncSteamTags_cases:
  "syncSteamTags e w =
     (case getTagList (tagListApi e) (number_of (lastTagHash (getDataJson w))) of
        Inl err \<Rightarrow>
          (Inl err, w\<lparr>trace := trace w @ [GetTagList (number_of (lastTagHash (getDataJson w)))]\<rparr>)
      | Inr tagList \<Rightarrow>
          if tagList_tags tagList = [] then
            (Inr (), w\<lparr>trace := trace w @ [GetTagList (number_of (lastTagHash (getDataJson w))),
                                          ConsoleLog ''No new Steam tags found'']\<rparr>)
          else if queryFails e (TagListQuery (tagList_tags tagList)) then
            (Inr (),
             snd (insertOrUpdateTags e (tagList_tags tagList)
                    (w\<lparr>trace := trace w @ [GetTagList (number_of (lastTagHash (getDataJson w)))]\<rparr>)))
          else
            (Inr (),
             console_log ''Steam tags synced''
               (setDataJson e ((getDataJson w)\<lparr>lastTagHash := tagHash tagList\<rparr>)
                  (snd (insertOrUpdateTags e (tagList_tags tagList)
                     (w\<lparr>trace := trace w @ [GetTagList (number_of (lastTagHash (getDataJson w)))]\<rparr>))))))"
proof -
  let ?w1 = "w\<lparr>trace := trace w @ [GetTagList (number_of (lastTagHash (getDataJson w)))]\<rparr>"
  show ?thesis
  proof (cases "getTagList (tagListApi e) (number_of (lastTagHash (getDataJson w)))")
    case (Inl err)
    then show ?thesis
      by (simp add: syncSteamTags_def Let_def number_of_truthy)
  next
    case (Inr tagList)
    show ?thesis
    proof (cases "insertOrUpdateTags e (tagList_tags tagList) ?w1")
      case (Pair ok w2)
      then have "ok = (\<not> queryFails e (TagListQuery (tagList_tags tagList)))"
        using fst_insertOrUpdateTags [of e "tagList_tags tagList" ?w1] by simp
      with Pair Inr show ?thesis
        by (simp add: syncSteamTags_def Let_def number_of_truthy console_log_def)
    qed
  qed
qed

subsection \<open>The catalog feed, case by case\<close>

lemma ids_of_apps [simp]: "map (\<lambda>(appId, name). appId) xs = map fst xs"
  by (induction xs) auto

lemma syncSteamApps_rest_cases:
  "syncSteamApps_rest e d al w =
     (if appList_apps al = [] then
        (Inr (), w\<lparr>trace := trace w @ [ConsoleLog ''No new or updated Steam apps found'']\<rparr>)
      else
        (case fst (getSteamAppDetails (itemsApi e) (map fst (appList_apps al))) of
           Inl err \<Rightarrow>
             (Inl err,
              w\<lparr>trace := trace w @
                   map GetItems (snd (getSteamAppDetails (itemsApi e) (map fst (appList_apps al))))\<rparr>)
         | Inr ds \<Rightarrow>
             if fst (insertOrUpdateApps e ds w) then
               (Inr (),
                console_log ''Steam apps synced''
                  (setDataJson e (d\<lparr>lastAppTime := Some (appList_time al)\<rparr>)
                     (snd (insertOrUpdateApps e ds
                        (w\<lparr>trace := trace w @
                             map GetItems (snd (getSteamAppDetails (itemsApi e)
                                                  (map fst (appList_apps al))))\<rparr>)))))
             else
               (Inr (),
                snd (insertOrUpdateApps e ds
                       (w\<lparr>trace := trace w @
                            map GetItems (snd (getSteamAppDetails (itemsApi e)
                                                 (map fst (appList_apps al))))\<rparr>)))))"
proof (cases "getSteamAppDetails (itemsApi e) (map fst (appList_apps al))")
  case (Pair r reqs)
  show ?thesis
  proof (cases r)
    case (Inl err)
    with Pair show ?thesis
      by (simp add: syncSteamApps_rest_def console_log_def)
  next
    case (Inr ds)
    let ?w1 = "w\<lparr>trace := trace w @ map GetItems reqs\<rparr>"
    have same: "fst (insertOrUpdateApps e ds ?w1) = fst (insertOrUpdateApps e ds w)"
      by (simp add: fst_insertOrUpdateApps)
    show ?thesis
    proof (cases "insertOrUpdateApps e ds ?w1")
      case written: (Pair ok w2)
      with same have "ok = fst (insertOrUpdateApps e ds w)" by simp
      with written Pair Inr show ?thesis
        by (simp add: syncSteamApps_rest_def console_log_def)
    qed
  qed
qed

text \<open>
  Up to the end of the listing the feed has only logged and sent requests; the rest
  runs in a world that differs from the first in its trace alone.
\<close>

lemma syncSteamApps_cases:
  "\<exists>evs. filter is_write evs = [] \<and>
     syncSteamApps e w =
       (case getSteamApps (now e) (appListApi e) (number_of (lastAppTime (getDataJson w))) of
          None \<Rightarrow> None
        | Some (Inl err, reqs) \<Rightarrow> Some (Inl err, w\<lparr>trace := trace w @ evs\<rparr>)
        | Some (Inr al, reqs) \<Rightarrow>
            Some (syncSteamApps_rest e (getDataJson w) al (w\<lparr>trace := trace w @ evs\<rparr>)))"
proof (cases "getSteamApps (now e) (appListApi e) (number_of (lastAppTime (getDataJson w)))")
  case None
  then show ?thesis
    using number_of_truthy [of "lastAppTime (getDataJson w)"]
    by (auto simp: syncSteamApps_def Let_def split: if_splits intro!: exI [of _ "[]"])
next
  case (Some a)
  obtain r reqs where a: "a = (r, reqs)" by (cases a)
  let ?reqs = "map (\<lambda>(since, last). GetAppList since last) reqs"
  have quiet: "filter is_write ?reqs = []"
    by (induction reqs) auto
  show ?thesis
  proof (cases "truthy (lastAppTime (getDataJson w))")
    case True
    with Some a quiet show ?thesis
      by (cases r) (auto simp: syncSteamApps_def Let_def intro!: exI [of _ ?reqs])
  next
    case False
    then have zero: "number_of (lastAppTime (getDataJson w)) = 0"
      using number_of_truthy [of "lastAppTime (getDataJson w)"] by simp
    let ?first = "ConsoleLog
      ''Looks like this is the first time syncing all apps with Steam. This may take a while.''"
    show ?thesis
    proof (cases r)
      case (Inl err)
      with Some a quiet False zero show ?thesis
        by (auto simp: syncSteamApps_def Let_def console_log_def intro!: exI [of _ "?first # ?reqs"])
    next
      case (Inr al)
      let ?count = "ConsoleLogCount ''Syncing details from '' (length (appList_apps al))
        '' apps. This will take a long time.''"
      from Some a quiet False zero Inr show ?thesis
        by (auto simp: syncSteamApps_def Let_def console_log_def
            intro!: exI [of _ "?first # ?reqs @ [?count]"])
    qed
  qed
qed

subsection \<open>The watermark and the store write\<close>



subsection \<open>What each feed leaves alone\<close>

lemma getDataJson_insertOrUpdateTags [simp]:
  "getDataJson (snd (insertOrUpdateTags e tgs w)) = getDataJson w"
  by (simp add: getDataJson_def)

lemma getDataJson_insertOrUpdateApps [simp]:
  "getDataJson (snd (insertOrUpdateApps e as w)) = getDataJson w"
  by (simp add: getDataJson_def)

lemma getDataJson_setDataJson:
  "getDataJson (setDataJson e d w) = (if writeFileFails e then getDataJson w else d)"
  by (simp add: setDataJson_def getDataJson_def console_error_def)

lemma fst_syncSteamTags:
  "fst (syncSteamTags e w) =
     (case getTagList (tagListApi e) (sent_hash w) of Inl err \<Rightarrow> Inl err | Inr tagList \<Rightarrow> Inr ())"
  by (simp add: syncSteamTags_cases sent_hash_def split: sum.splits)

text \<open>The taxonomy feed changes neither the catalog's watermark nor its two tables.\<close>

lemma syncSteamTags_frame:
  "lastAppTime (getDataJson (snd (syncSteamTags e w))) = lastAppTime (getDataJson w)"
  "app_table (committed (db (snd (syncSteamTags e w)))) = app_table (committed (db w))"
  "app_tags_table (committed (db (snd (syncSteamTags e w)))) = app_tags_table (committed (db w))"
  by (simp_all add: syncSteamTags_cases getDataJson_setDataJson split: sum.splits)

text \<open>The catalog feed changes neither the taxonomy's watermark nor its table.\<close>

lemma syncSteamApps_rest_frame:
  "lastTagHash d = lastTagHash (getDataJson w) \<Longrightarrow>
   lastTagHash (getDataJson (snd (syncSteamApps_rest e d al w))) = lastTagHash (getDataJson w)"
  "tags_table (committed (db (snd (syncSteamApps_rest e d al w)))) = tags_table (committed (db w))"
  by (simp_all add: syncSteamApps_rest_cases getDataJson_setDataJson split: sum.splits)

lemma syncSteamApps_frame:
  assumes "syncSteamApps e w = Some (r, w')"
  shows "lastTagHash (getDataJson w') = lastTagHash (getDataJson w)"
    and "tags_table (committed (db w')) = tags_table (committed (db w))"
proof -
  obtain evs where run: "syncSteamApps e w =
       (case getSteamApps (now e) (appListApi e) (number_of (lastAppTime (getDataJson w))) of
          None \<Rightarrow> None
        | Some (Inl err, reqs) \<Rightarrow> Some (Inl err, w\<lparr>trace := trace w @ evs\<rparr>)
        | Some (Inr al, reqs) \<Rightarrow>
            Some (syncSteamApps_rest e (getDataJson w) al (w\<lparr>trace := trace w @ evs\<rparr>)))"
    using syncSteamApps_cases [of e w] by blast
  let ?w0 = "w\<lparr>trace := trace w @ evs\<rparr>"
  have either: "w' = ?w0 \<or> (\<exists>al. w' = snd (syncSteamApps_rest e (getDataJson w) al ?w0))"
    using assms unfolding run
    by (auto split: option.splits sum.splits prod.splits) (metis snd_conv)
  have kept: "lastTagHash (getDataJson (snd (syncSteamApps_rest e (getDataJson w) al ?w0))) =
      lastTagHash (getDataJson w)" for al
    using syncSteamApps_rest_frame(1) [of "getDataJson w" ?w0 e al] by simp
  have table: "tags_table (committed (db (snd (syncSteamApps_rest e (getDataJson w) al ?w0)))) =
      tags_table (committed (db w))" for al
    using syncSteamApps_rest_frame(2) [of e "getDataJson w" al ?w0] by simp
  show "lastTagHash (getDataJson w') = lastTagHash (getDataJson w)"
    using either kept by auto
  show "tags_table (committed (db w')) = tags_table (committed (db w))"
    using either table by auto
qed

subsection \<open>One pass\<close>

lemma syncWithSteam_cases:
  "syncWithSteam eT eA w =
     (case fst (syncSteamTags eT (console_log ''Syncing with Steam...'' w)) of
        Inl err \<Rightarrow> Some (Inl err, snd (syncSteamTags eT (console_log ''Syncing with Steam...'' w)))
      | Inr u \<Rightarrow>
          map_option finish_pass
            (syncSteamApps eA (snd (syncSteamTags eT (console_log ''Syncing with Steam...'' w)))))"
proof (cases "syncSteamTags eT (console_log ''Syncing with Steam...'' w)")
  case (Pair r w1)
  show ?thesis
  proof (cases r)
    case (Inl err)
    with Pair show ?thesis by (simp add: syncWithSteam_def)
  next
    case (Inr u)
    with Pair show ?thesis
      by (cases "syncSteamApps eA w1")
        (auto simp: syncWithSteam_def finish_pass_def split: sum.splits)
  qed
qed

lemma sent_hash_console_log [simp]: "sent_hash (console_log m w) = sent_hash w"
  by (simp add: sent_hash_def)

subsection \<open>An empty fetch\<close>

text \<open>
  Claim C5. When the tag list comes back with zero entries, \<open>syncSteamTags\<close> returns
  normally and the world differs only by the request and one log line. When the listing
  comes back with zero identifiers, \<open>syncSteamApps\<close> returns normally and the world
  differs only by added events, none of which is a database statement or a write of
  \<open>data.json\<close>. In both cases the file and the database are what they were.
\<close>

theorem empty_fetch_changes_nothing:
  "(getTagList (tagListApi e) (sent_hash w) = Inr tagList \<and> tagList_tags tagList = [] \<longrightarrow>
      syncSteamTags e w =
        (Inr (), w\<lparr>trace := trace w @ [GetTagList (sent_hash w),
                                      ConsoleLog ''No new Steam tags found'']\<rparr>))
   \<and> (getSteamApps (now e) (appListApi e) (sent_time w) = Some (Inr appList, reqs)
        \<and> appList_apps appList = [] \<longrightarrow>
      (\<exists>evs. filter is_write evs = []
         \<and> syncSteamApps e w = Some (Inr (), w\<lparr>trace := trace w @ evs\<rparr>)))"
proof (intro conjI impI)
  assume "getTagList (tagListApi e) (sent_hash w) = Inr tagList \<and> tagList_tags tagList = []"
  then show "syncSteamTags e w =
      (Inr (), w\<lparr>trace := trace w @ [GetTagList (sent_hash w),
                                    ConsoleLog ''No new Steam tags found'']\<rparr>)"
    by (simp add: syncSteamTags_cases sent_hash_def)
next
  assume listed: "getSteamApps (now e) (appListApi e) (sent_time w) = Some (Inr appList, reqs)
      \<and> appList_apps appList = []"
  obtain evs where quiet: "filter is_write evs = []" and run: "syncSteamApps e w =
       (case getSteamApps (now e) (appListApi e) (sent_time w) of
          None \<Rightarrow> None
        | Some (Inl err, reqs) \<Rightarrow> Some (Inl err, w\<lparr>trace := trace w @ evs\<rparr>)
        | Some (Inr al, reqs) \<Rightarrow>
            Some (syncSteamApps_rest e (getDataJson w) al (w\<lparr>trace := trace w @ evs\<rparr>)))"
    using syncSteamApps_cases [of e w] unfolding sent_time_def by blast
  let ?evs = "evs @ [ConsoleLog ''No new or updated Steam apps found'']"
  have "filter is_write ?evs = []"
    using quiet by simp
  moreover have "syncSteamApps e w = Some (Inr (), w\<lparr>trace := trace w @ ?evs\<rparr>)"
    using listed by (simp add: run syncSteamApps_rest_cases)
  ultimately show "\<exists>evs. filter is_write evs = []
      \<and> syncSteamApps e w = Some (Inr (), w\<lparr>trace := trace w @ evs\<rparr>)"
    by blast
qed

text \<open>With hash 55 and time 900 on file and a remote that has nothing new.\<close>

theorem empty_fetch_changes_nothing_witness:
  "syncSteamTags env_quiet world_marked =
     (Inr (), world_marked\<lparr>trace := [GetTagList 55, ConsoleLog ''No new Steam tags found'']\<rparr>)
   \<and> syncSteamApps env_quiet world_marked =
     Some (Inr (), world_marked\<lparr>trace := [GetAppList 900 0,
                                          ConsoleLog ''No new or updated Steam apps found'']\<rparr>)"
proof -
  let ?tagList = "\<lparr>tagList_tags = [], tagHash = Some 77\<rparr>"
  let ?appList = "\<lparr>appList_apps = [], appList_time = 1000\<rparr>"
  have tags: "getTagList (tagListApi env_quiet) (sent_hash world_marked) = Inr ?tagList
      \<and> tagList_tags ?tagList = []"
    by (simp add: sample_defs env_quiet_def page_bare_def client_defs)
  have listed: "getSteamApps (now env_quiet) (appListApi env_quiet) (sent_time world_marked) =
      Some (Inr ?appList, [(900, 0)]) \<and> appList_apps ?appList = []"
    by (simp add: sample_defs env_quiet_def page_bare_def client_defs job_defs sent_hash_def sent_time_def)
  have sent: "sent_hash world_marked = 55" "trace world_marked = []"
    by (simp_all add: sample_defs env_quiet_def page_bare_def job_defs sent_hash_def sent_time_def)
  note c = empty_fetch_changes_nothing [where e = env_quiet and w = world_marked
      and tagList = ?tagList and appList = ?appList and reqs = "[(900, 0)]"]
  have "syncSteamTags env_quiet world_marked =
      (Inr (), world_marked\<lparr>trace := [GetTagList 55, ConsoleLog ''No new Steam tags found'']\<rparr>)"
    using c tags sent by simp
  moreover have "syncSteamApps env_quiet world_marked =
      Some (Inr (), world_marked\<lparr>trace := [GetAppList 900 0,
                                           ConsoleLog ''No new or updated Steam apps found'']\<rparr>)"
    using c listed by (simp add: sample_defs env_quiet_def page_bare_def client_defs job_defs sent_hash_def sent_time_def)
  ultimately show ?thesis
    by blast
qed

subsection \<open>A save of the watermark that fails\<close>

text \<open>
  Claim C9 as stated fails: with a write of \<open>data.json\<close> that fails, \<open>syncSteamTags\<close>
  returns what it returns when the write succeeds, and its last act is to log
  \<open>Steam tags synced\<close>. The failure is logged inside \<open>setDataJson\<close> and goes no further.
\<close>

theorem failed_save_looks_like_success:
  "fst (syncSteamTags env_write_fails world_marked) = Inr ()
   \<and> fst (syncSteamTags env_write_fails world_marked) = fst (syncSteamTags env_ok world_marked)
   \<and> trace (snd (syncSteamTags env_write_fails world_marked)) =
       [GetTagList 55, Query (TagListQuery [(1, ''Action''), (2, ''RPG'')]),
        WriteFile \<lparr>lastTagHash = Some 77, lastAppTime = Some 900\<rparr>,
        ConsoleError ''Failed to write data.json:'', ConsoleLog ''Steam tags synced'']"
  by (simp add: sample_defs env_write_fails_def client_defs store_defs job_defs)

text \<open>
  Claim C9, as the source has it. A write of \<open>data.json\<close> that fails is logged and
  swallowed by \<open>setDataJson\<close>, which changes nothing else and returns normally. The
  feed whose save failed does not throw; the file (so its watermark) is as it was,
  and the feed still ends by logging that it synced. After a taxonomy feed whose save
  failed, \<open>syncWithSteam\<close> runs the catalog feed as after any other.
\<close>

theorem failed_save_is_logged_only:
  "(writeFileFails e \<longrightarrow>
      setDataJson e d w =
        w\<lparr>trace := trace w @ [WriteFile d, ConsoleError ''Failed to write data.json:'']\<rparr>)
   \<and> (writeFileFails e \<and> getTagList (tagListApi e) (sent_hash w) = Inr tagList
        \<and> tagList_tags tagList \<noteq> [] \<and> fst (insertOrUpdateTags e (tagList_tags tagList) w1) \<longrightarrow>
      fst (syncSteamTags e w) = Inr ()
      \<and> dataJson (snd (syncSteamTags e w)) = dataJson w
      \<and> (\<exists>evs. trace (snd (syncSteamTags e w)) =
            evs @ [WriteFile ((getDataJson w)\<lparr>lastTagHash := tagHash tagList\<rparr>),
                   ConsoleError ''Failed to write data.json:'',
                   ConsoleLog ''Steam tags synced'']))
   \<and> (writeFileFails e
        \<and> getSteamApps (now e) (appListApi e) (sent_time w) = Some (Inr appList, reqs)
        \<and> appList_apps appList \<noteq> []
        \<and> fst (getSteamAppDetails (itemsApi e) (map fst (appList_apps appList))) = Inr appDetails
        \<and> fst (insertOrUpdateApps e appDetails w2) \<longrightarrow>
      (\<exists>w' evs. syncSteamApps e w = Some (Inr (), w')
         \<and> dataJson w' = dataJson w
         \<and> trace w' =
            evs @ [WriteFile ((getDataJson w)\<lparr>lastAppTime := Some (appList_time appList)\<rparr>),
                   ConsoleError ''Failed to write data.json:'',
                   ConsoleLog ''Steam apps synced'']))
   \<and> (writeFileFails e \<and> getTagList (tagListApi e) (sent_hash w) = Inr tagList \<longrightarrow>
      syncWithSteam e eA w =
        map_option finish_pass
          (syncSteamApps eA (snd (syncSteamTags e (console_log ''Syncing with Steam...'' w)))))"
proof (intro conjI impI)
  assume "writeFileFails e"
  then show "setDataJson e d w =
      w\<lparr>trace := trace w @ [WriteFile d, ConsoleError ''Failed to write data.json:'']\<rparr>"
    by (rule setDataJson_failed)
next
  assume h: "writeFileFails e \<and> getTagList (tagListApi e) (sent_hash w) = Inr tagList
      \<and> tagList_tags tagList \<noteq> [] \<and> fst (insertOrUpdateTags e (tagList_tags tagList) w1)"
  then have accepted: "\<not> queryFails e (TagListQuery (tagList_tags tagList))"
    by (simp add: fst_insertOrUpdateTags)
  from h accepted show "fst (syncSteamTags e w) = Inr ()"
    by (simp add: syncSteamTags_cases sent_hash_def)
  from h accepted show "dataJson (snd (syncSteamTags e w)) = dataJson w"
    by (simp add: syncSteamTags_cases sent_hash_def dataJson_setDataJson)
  from h accepted show "\<exists>evs. trace (snd (syncSteamTags e w)) =
      evs @ [WriteFile ((getDataJson w)\<lparr>lastTagHash := tagHash tagList\<rparr>),
             ConsoleError ''Failed to write data.json:'', ConsoleLog ''Steam tags synced'']"
    by (simp add: syncSteamTags_cases sent_hash_def setDataJson_failed console_log_def)
next
  assume h: "writeFileFails e
      \<and> getSteamApps (now e) (appListApi e) (sent_time w) = Some (Inr appList, reqs)
      \<and> appList_apps appList \<noteq> []
      \<and> fst (getSteamAppDetails (itemsApi e) (map fst (appList_apps appList))) = Inr appDetails
      \<and> fst (insertOrUpdateApps e appDetails w2)"
  obtain evs where run: "syncSteamApps e w =
       (case getSteamApps (now e) (appListApi e) (sent_time w) of
          None \<Rightarrow> None
        | Some (Inl err, reqs) \<Rightarrow> Some (Inl err, w\<lparr>trace := trace w @ evs\<rparr>)
        | Some (Inr al, reqs) \<Rightarrow>
            Some (syncSteamApps_rest e (getDataJson w) al (w\<lparr>trace := trace w @ evs\<rparr>)))"
    using syncSteamApps_cases [of e w] unfolding sent_time_def by blast
  let ?w0 = "w\<lparr>trace := trace w @ evs\<rparr>"
  have accepted: "fst (insertOrUpdateApps e appDetails ?w0)"
    using h by (simp add: fst_insertOrUpdateApps)
  let ?w' = "snd (syncSteamApps_rest e (getDataJson w) appList ?w0)"
  have "syncSteamApps e w = Some (Inr (), ?w')"
    using h accepted by (simp add: run syncSteamApps_rest_cases [of e _ appList ?w0])
  moreover have "dataJson ?w' = dataJson w"
    using h accepted
    by (simp add: syncSteamApps_rest_cases [of e _ appList ?w0] dataJson_setDataJson)
  moreover have "\<exists>evs. trace ?w' =
      evs @ [WriteFile ((getDataJson w)\<lparr>lastAppTime := Some (appList_time appList)\<rparr>),
             ConsoleError ''Failed to write data.json:'', ConsoleLog ''Steam apps synced'']"
    using h accepted
    by (simp add: syncSteamApps_rest_cases [of e _ appList ?w0] setDataJson_failed console_log_def)
  ultimately show "\<exists>w' evs. syncSteamApps e w = Some (Inr (), w')
      \<and> dataJson w' = dataJson w
      \<and> trace w' =
          evs @ [WriteFile ((getDataJson w)\<lparr>lastAppTime := Some (appList_time appList)\<rparr>),
                 ConsoleError ''Failed to write data.json:'', ConsoleLog ''Steam apps synced'']"
    by blast
next
  assume "writeFileFails e \<and> getTagList (tagListApi e) (sent_hash w) = Inr tagList"
  then have "fst (syncSteamTags e (console_log ''Syncing with Steam...'' w)) = Inr ()"
    by (simp add: fst_syncSteamTags)
  then show "syncWithSteam e eA w =
      map_option finish_pass
        (syncSteamApps eA (snd (syncSteamTags e (console_log ''Syncing with Steam...'' w))))"
    by (simp add: syncWithSteam_cases)
qed

text \<open>
  Hash 55 and time 900 are on file and every write of \<open>data.json\<close> fails while the
  taxonomy feed runs: both stay. With a healthy outside during the catalog feed of the
  same pass, that feed advances its time to 1000.
\<close>

theorem failed_save_is_logged_only_witness:
  "setDataJson env_write_fails \<lparr>lastTagHash = Some 77, lastAppTime = Some 900\<rparr> world_marked =
     world_marked\<lparr>trace := [WriteFile \<lparr>lastTagHash = Some 77, lastAppTime = Some 900\<rparr>,
                            ConsoleError ''Failed to write data.json:'']\<rparr>
   \<and> fst (syncSteamTags env_write_fails world_marked) = Inr ()
   \<and> dataJson (snd (syncSteamTags env_write_fails world_marked)) =
       Some \<lparr>lastTagHash = Some 55, lastAppTime = Some 900\<rparr>
   \<and> map_option (\<lambda>(r, w'). (r, dataJson w')) (syncSteamApps env_write_fails world_marked) =
       Some (Inr (), Some \<lparr>lastTagHash = Some 55, lastAppTime = Some 900\<rparr>)
   \<and> map_option (\<lambda>(r, w'). (r, dataJson w')) (syncWithSteam env_write_fails env_ok world_marked) =
       Some (Inr (), Some \<lparr>lastTagHash = Some 55, lastAppTime = Some 1000\<rparr>)"
proof -
  let ?tagList = "\<lparr>tagList_tags = [(1, ''Action''), (2, ''RPG'')], tagHash = Some 77\<rparr>"
  let ?appList = "\<lparr>appList_apps = [(10, ''Game A'')], appList_time = 1000\<rparr>"
  let ?appDetails = "[item_to_app (item_A 10)]"
  let ?d = "\<lparr>lastTagHash = Some 77, lastAppTime = Some 900\<rparr>"
  have on_file: "dataJson world_marked = Some \<lparr>lastTagHash = Some 55, lastAppTime = Some 900\<rparr>"
    "trace world_marked = []"
    by (simp_all add: sample_defs env_write_fails_def)
  have fails: "writeFileFails env_write_fails"
    by (simp add: sample_defs env_write_fails_def)
  have tags: "getTagList (tagListApi env_write_fails) (sent_hash world_marked) = Inr ?tagList"
    "tagList_tags ?tagList \<noteq> []"
    "fst (insertOrUpdateTags env_write_fails (tagList_tags ?tagList) world0)"
    by (simp_all add: fst_insertOrUpdateTags sample_defs env_write_fails_def client_defs)
  have listed: "getSteamApps (now env_write_fails) (appListApi env_write_fails)
      (sent_time world_marked) = Some (Inr ?appList, [(900, 0)])"
    "appList_apps ?appList \<noteq> []"
    "fst (getSteamAppDetails (itemsApi env_write_fails) (map fst (appList_apps ?appList))) =
      Inr ?appDetails"
    "fst (insertOrUpdateApps env_write_fails ?appDetails world0)"
    by (simp_all add: fst_insertOrUpdateApps sample_defs env_write_fails_def client_defs job_defs sent_hash_def sent_time_def finish_pass_def chunks_from.simps)
  note c = failed_save_is_logged_only [where e = env_write_fails and w = world_marked
      and d = ?d and tagList = ?tagList and ?w1.0 = world0 and appList = ?appList
      and reqs = "[(900, 0)]" and appDetails = ?appDetails and ?w2.0 = world0 and eA = env_ok]
  have "setDataJson env_write_fails ?d world_marked =
      world_marked\<lparr>trace := [WriteFile ?d, ConsoleError ''Failed to write data.json:'']\<rparr>"
    using c fails on_file by simp
  moreover have "fst (syncSteamTags env_write_fails world_marked) = Inr ()"
    "dataJson (snd (syncSteamTags env_write_fails world_marked)) = dataJson world_marked"
    using c fails tags by blast+
  moreover have "\<exists>w'. syncSteamApps env_write_fails world_marked = Some (Inr (), w')
      \<and> dataJson w' = dataJson world_marked"
    using c fails listed by blast
  then have "map_option (\<lambda>(r, w'). (r, dataJson w')) (syncSteamApps env_write_fails world_marked) =
      Some (Inr (), dataJson world_marked)"
    by auto
  moreover have "syncWithSteam env_write_fails env_ok world_marked =
      map_option finish_pass (syncSteamApps env_ok
        (snd (syncSteamTags env_write_fails (console_log ''Syncing with Steam...'' world_marked))))"
    using c fails tags by blast
  then have "map_option (\<lambda>(r, w'). (r, dataJson w')) (syncWithSteam env_write_fails env_ok world_marked) =
      Some (Inr (), Some \<lparr>lastTagHash = Some 55, lastAppTime = Some 1000\<rparr>)"
    by (simp add: sample_defs env_write_fails_def client_defs store_defs job_defs sent_hash_def sent_time_def finish_pass_def chunks_from.simps)
  ultimately show ?thesis
    by (simp add: on_file)
qed

subsection \<open>The two feeds of a pass\<close>

text \<open>
  Claim C4 as stated fails: when the tag list request is answered with an error status,
  \<open>syncWithSteam\<close> throws after that one request. The catalog feed is not run, although
  on its own, in the same world and with the same outside, it would have advanced its
  watermark from 900 to 1000.
\<close>

theorem tag_fetch_error_ends_pass:
  "map_option (\<lambda>(r, w'). (r, dataJson w', trace w'))
      (syncWithSteam env_tags_down env_ok world_marked) =
     Some (Inl (HttpError ''Failed to fetch Steam tag list: Service Unavailable''),
           Some \<lparr>lastTagHash = Some 55, lastAppTime = Some 900\<rparr>,
           [ConsoleLog ''Syncing with Steam...'', GetTagList 55])
   \<and> map_option (\<lambda>(r, w'). (r, dataJson w')) (syncSteamApps env_ok world_marked) =
     Some (Inr (), Some \<lparr>lastTagHash = Some 55, lastAppTime = Some 1000\<rparr>)"
  by (simp add: sample_defs env_tags_down_def client_defs store_defs job_defs chunks_from.simps)

text \<open>
  Claim C4, as the source has it. When the tag list fetch returns (whether or not the
  tags are then written and the hash saved), \<open>syncWithSteam\<close> runs the catalog feed in
  the world the taxonomy feed left and ends as that feed does. When the tag list fetch
  throws, \<open>syncWithSteam\<close> throws the same error at once: the catalog feed is not run in
  that pass, and the world differs only by the first log line and the request. Whatever
  happens in it, the taxonomy feed changes neither \<open>lastAppTime\<close> nor the \<open>app\<close> and
  \<open>app_tags\<close> tables, and the catalog feed changes neither \<open>lastTagHash\<close> nor the
  \<open>tags\<close> table.
\<close>

theorem feeds_of_one_pass:
  "(getTagList (tagListApi eT) (sent_hash w) = Inr tagList \<longrightarrow>
      syncWithSteam eT eA w =
        map_option finish_pass
          (syncSteamApps eA (snd (syncSteamTags eT (console_log ''Syncing with Steam...'' w)))))
   \<and> (getTagList (tagListApi eT) (sent_hash w) = Inl err \<longrightarrow>
      syncWithSteam eT eA w =
        Some (Inl err, w\<lparr>trace := trace w @ [ConsoleLog ''Syncing with Steam...'',
                                              GetTagList (sent_hash w)]\<rparr>))
   \<and> lastAppTime (getDataJson (snd (syncSteamTags e w0))) = lastAppTime (getDataJson w0)
   \<and> app_table (committed (db (snd (syncSteamTags e w0)))) = app_table (committed (db w0))
   \<and> app_tags_table (committed (db (snd (syncSteamTags e w0)))) = app_tags_table (committed (db w0))
   \<and> (syncSteamApps e w0 = Some (r, w') \<longrightarrow>
      lastTagHash (getDataJson w') = lastTagHash (getDataJson w0)
      \<and> tags_table (committed (db w')) = tags_table (committed (db w0)))"
proof (intro conjI impI)
  assume "getTagList (tagListApi eT) (sent_hash w) = Inr tagList"
  then have "fst (syncSteamTags eT (console_log ''Syncing with Steam...'' w)) = Inr ()"
    by (simp add: fst_syncSteamTags)
  then show "syncWithSteam eT eA w =
      map_option finish_pass
        (syncSteamApps eA (snd (syncSteamTags eT (console_log ''Syncing with Steam...'' w))))"
    by (simp add: syncWithSteam_cases)
next
  assume thrown: "getTagList (tagListApi eT) (sent_hash w) = Inl err"
  let ?w0 = "console_log ''Syncing with Steam...'' w"
  have "getTagList (tagListApi eT) (number_of (lastTagHash (getDataJson ?w0))) = Inl err"
    using thrown by (simp add: sent_hash_def)
  then have "syncSteamTags eT ?w0 =
      (Inl err, ?w0\<lparr>trace := trace ?w0 @ [GetTagList (number_of (lastTagHash (getDataJson ?w0)))]\<rparr>)"
    by (simp add: syncSteamTags_cases [of eT ?w0])
  then show "syncWithSteam eT eA w =
      Some (Inl err, w\<lparr>trace := trace w @ [ConsoleLog ''Syncing with Steam...'',
                                            GetTagList (sent_hash w)]\<rparr>)"
    by (simp add: syncWithSteam_cases sent_hash_def console_log_def)
next
  show "lastAppTime (getDataJson (snd (syncSteamTags e w0))) = lastAppTime (getDataJson w0)"
    by (rule syncSteamTags_frame)
  show "app_table (committed (db (snd (syncSteamTags e w0)))) = app_table (committed (db w0))"
    by (rule syncSteamTags_frame)
  show "app_tags_table (committed (db (snd (syncSteamTags e w0)))) =
      app_tags_table (committed (db w0))"
    by (rule syncSteamTags_frame)
next
  assume run: "syncSteamApps e w0 = Some (r, w')"
  show "lastTagHash (getDataJson w') = lastTagHash (getDataJson w0)"
    using run by (rule syncSteamApps_frame)
  show "tags_table (committed (db w')) = tags_table (committed (db w0))"
    using run by (rule syncSteamApps_frame)
qed

text \<open>
  Hash 55 and time 900 are on file. A pass in which all goes well puts 77 and 1000. A
  pass whose tag write the database refuses leaves the hash and still runs the catalog
  feed, which advances the time to 1000. A pass whose tag list request fails ends there.
\<close>

theorem feeds_of_one_pass_witness:
  "map_option (\<lambda>(r, w'). (r, dataJson w')) (syncWithSteam env_ok env_ok world_marked) =
     Some (Inr (), Some \<lparr>lastTagHash = Some 77, lastAppTime = Some 1000\<rparr>)
   \<and> map_option (\<lambda>(r, w'). (r, dataJson w'))
       (syncWithSteam env_taglist_refused env_ok world_marked) =
     Some (Inr (), Some \<lparr>lastTagHash = Some 55, lastAppTime = Some 1000\<rparr>)
   \<and> syncWithSteam env_tags_down env_ok world_marked =
     Some (Inl (HttpError ''Failed to fetch Steam tag list: Service Unavailable''),
           world_marked\<lparr>trace := [ConsoleLog ''Syncing with Steam...'', GetTagList 55]\<rparr>)
   \<and> map_option (\<lambda>(r, w'). lastTagHash (getDataJson w')) (syncSteamApps env_ok world_marked) =
     Some (Some 55)"
proof -
  let ?tagList = "\<lparr>tagList_tags = [(1, ''Action''), (2, ''RPG'')], tagHash = Some 77\<rparr>"
  let ?down = "HttpError ''Failed to fetch Steam tag list: Service Unavailable''"
  have sent: "sent_hash world_marked = 55" "trace world_marked = []"
    "lastTagHash (getDataJson world_marked) = Some 55"
    by (simp_all add: sample_defs env_tags_down_def env_taglist_refused_def job_defs sent_hash_def finish_pass_def)
  have tags: "getTagList (tagListApi env_ok) (sent_hash world_marked) = Inr ?tagList"
    "getTagList (tagListApi env_taglist_refused) (sent_hash world_marked) = Inr ?tagList"
    by (simp_all add: sample_defs env_tags_down_def env_taglist_refused_def client_defs)
  have down: "getTagList (tagListApi env_tags_down) (sent_hash world_marked) = Inl ?down"
    by (simp add: sample_defs env_tags_down_def env_taglist_refused_def client_defs)
  have "syncSteamApps env_ok world_marked \<noteq> None"
    by (simp add: sample_defs env_tags_down_def env_taglist_refused_def client_defs store_defs job_defs sent_hash_def finish_pass_def chunks_from.simps)
  then obtain r w' where run: "syncSteamApps env_ok world_marked = Some (r, w')"
    by (cases "syncSteamApps env_ok world_marked") auto
  note c = feeds_of_one_pass
  have "syncWithSteam env_ok env_ok world_marked =
      map_option finish_pass (syncSteamApps env_ok
        (snd (syncSteamTags env_ok (console_log ''Syncing with Steam...'' world_marked))))"
    using c [where eT = env_ok and eA = env_ok and w = world_marked
        and tagList = ?tagList] tags by blast
  then have "map_option (\<lambda>(r, w'). (r, dataJson w'))
      (syncWithSteam env_ok env_ok world_marked) =
      Some (Inr (), Some \<lparr>lastTagHash = Some 77, lastAppTime = Some 1000\<rparr>)"
    by (simp add: sample_defs env_tags_down_def env_taglist_refused_def client_defs store_defs job_defs sent_hash_def finish_pass_def chunks_from.simps)
  moreover have "syncWithSteam env_taglist_refused env_ok world_marked =
      map_option finish_pass (syncSteamApps env_ok
        (snd (syncSteamTags env_taglist_refused (console_log ''Syncing with Steam...'' world_marked))))"
    using c [where eT = env_taglist_refused and eA = env_ok and w = world_marked and tagList = ?tagList] tags
    by blast
  then have "map_option (\<lambda>(r, w'). (r, dataJson w')) (syncWithSteam env_taglist_refused env_ok world_marked) =
      Some (Inr (), Some \<lparr>lastTagHash = Some 55, lastAppTime = Some 1000\<rparr>)"
    by (simp add: sample_defs env_tags_down_def env_taglist_refused_def client_defs store_defs job_defs sent_hash_def finish_pass_def chunks_from.simps)
  moreover have "syncWithSteam env_tags_down env_ok world_marked =
      Some (Inl ?down, world_marked\<lparr>trace := trace world_marked @
        [ConsoleLog ''Syncing with Steam...'', GetTagList (sent_hash world_marked)]\<rparr>)"
    using c [where eT = env_tags_down and eA = env_ok and w = world_marked and err = ?down]
      down by blast
  moreover have "lastTagHash (getDataJson w') = lastTagHash (getDataJson world_marked)"
    using c [where e = env_ok and ?w0.0 = world_marked and r = r and w' = w'] run by blast
  then have "map_option (\<lambda>(r, w'). lastTagHash (getDataJson w')) (syncSteamApps env_ok world_marked) =
      Some (Some 55)"
    by (simp add: run sent)
  ultimately show ?thesis
    by (simp add: sent)
qed

end
